theory Spec2Isabelle
  imports Complex_Main "HOL-Library.Log_Nat"
begin

section \<open>JavaScript values\<close>

text \<open>
  The script \<^verbatim>\<open>static/app.js\<close> runs in a browser.  Its own functions are embedded below
  one by one; the runtime functions it calls (\<^verbatim>\<open>parseFloat\<close>, \<^verbatim>\<open>String\<close>, \<^verbatim>\<open>trim\<close>, \<^verbatim>\<open>Date\<close>,
  \<^verbatim>\<open>Array.prototype.sort\<close>) are modelled after ECMAScript.  Where ECMAScript leaves a result
  to the implementation, the result is taken from a \<open>host\<close> record, and the general
  theorems hold for every host.

  A Number is \<open>NaN\<close>, an infinity, or a finite double, which is represented by the
  rational it denotes; \<open>-0\<close> is not distinguished from \<open>0\<close>.
\<close>

datatype jsnum = NaN | PosInf | NegInf | Fin rat

text \<open>
  The Number value for a rational: the nearest double, ties to the even significand.
  \<open>binade a\<close> is the exponent \<open>e\<close> with \<open>2 ^ e \<le> a < 2 ^ (e + 1)\<close> for a positive \<open>a\<close>; the
  doubles of that binade are the multiples of \<open>2 ^ (e - 52)\<close>, and those below
  \<open>2 ^ - 1022\<close> the multiples of \<open>2 ^ - 1074\<close>.  A value that rounds to \<open>2 ^ 1024\<close> or lies
  beyond it becomes an infinity, a value that rounds to no multiple becomes 0.
\<close>

definition pow2 :: "int \<Rightarrow> rat" where
  "pow2 k = (if 0 \<le> k then 2 ^ nat k else 1 / 2 ^ nat (- k))"

definition binade :: "rat \<Rightarrow> int" where
  "binade a =
     (if 1 \<le> a then int (floorlog 2 (nat \<lfloor>a\<rfloor>)) - 1
      else - int (floorlog 2 (nat (\<lceil>1 / a\<rceil> - 1))))"

definition roundHalfEven :: "rat \<Rightarrow> int" where
  "roundHalfEven r =
     (let f = \<lfloor>r\<rfloor>; d = r - of_int f
      in if d < 1 / 2 then f
         else if 1 / 2 < d then f + 1
         else if even f then f else f + 1)"

definition roundDouble :: "rat \<Rightarrow> jsnum" where
  "roundDouble q =
     (if q = 0 then Fin 0
      else
        (let a = \<bar>q\<bar>;
             e = max (binade a) (- 1022);
             ulp = pow2 (e - 52);
             m = roundHalfEven (a / ulp)
         in if 1024 \<le> e \<or> (e = 1023 \<and> m = 2 ^ 53) then (if 0 < q then PosInf else NegInf)
            else Fin ((if 0 < q then 1 else - 1) * of_int m * ulp)))"

fun isNaN :: "jsnum \<Rightarrow> bool" where
  "isNaN NaN = True"
| "isNaN _ = False"

text \<open>Number subtraction \<^verbatim>\<open>a - b\<close>: the exact difference of two finite Numbers, rounded.\<close>

fun jsSub :: "jsnum \<Rightarrow> jsnum \<Rightarrow> jsnum" where
  "jsSub NaN _ = NaN"
| "jsSub _ NaN = NaN"
| "jsSub PosInf PosInf = NaN"
| "jsSub NegInf NegInf = NaN"
| "jsSub PosInf _ = PosInf"
| "jsSub NegInf _ = NegInf"
| "jsSub (Fin a) PosInf = NegInf"
| "jsSub (Fin a) NegInf = PosInf"
| "jsSub (Fin a) (Fin b) = roundDouble (a - b)"

text \<open>The relational operator \<^verbatim>\<open>a < b\<close> on Numbers: false as soon as one side is \<open>NaN\<close>.\<close>

fun jsLess :: "jsnum \<Rightarrow> jsnum \<Rightarrow> bool" where
  "jsLess NaN _ = False"
| "jsLess _ NaN = False"
| "jsLess _ NegInf = False"
| "jsLess NegInf _ = True"
| "jsLess PosInf _ = False"
| "jsLess (Fin a) PosInf = True"
| "jsLess (Fin a) (Fin b) = (a < b)"

definition jsGreater :: "jsnum \<Rightarrow> jsnum \<Rightarrow> bool" where
  "jsGreater a b = jsLess b a"

subsection \<open>Strings\<close>

text \<open>
  A string is the list of its code units; the model covers the code units below 256.
  White space (\<^verbatim>\<open>StrWhiteSpaceChar\<close>) in that range is TAB, LF, VT, FF, CR, SP and NBSP.
\<close>

definition isWhite :: "char \<Rightarrow> bool" where
  "isWhite c = (of_char c \<in> {9, 10, 11, 12, 13, 32, 160 :: nat})"

definition trimStart :: "string \<Rightarrow> string" where
  "trimStart s = dropWhile isWhite s"

definition trim :: "string \<Rightarrow> string" where
  "trim s = rev (dropWhile isWhite (rev (dropWhile isWhite s)))"

definition isDigit :: "char \<Rightarrow> bool" where
  "isDigit c = (48 \<le> (of_char c :: nat) \<and> (of_char c :: nat) \<le> 57)"

definition digitVal :: "char \<Rightarrow> nat" where
  "digitVal c = of_char c - 48"

definition decVal :: "string \<Rightarrow> nat" where
  "decVal ds = foldl (\<lambda>n c. 10 * n + digitVal c) 0 ds"

definition startsWith :: "string \<Rightarrow> string \<Rightarrow> bool" where
  "startsWith s p = (take (length p) s = p)"

subsection \<open>parseFloat on a string\<close>

text \<open>
  \<^verbatim>\<open>ExponentPart\<close>: \<^verbatim>\<open>e\<close> or \<^verbatim>\<open>E\<close>, an optional sign and at least one digit; the exponent is
  0 when the string does not go on with one.
\<close>

definition exponentPart :: "string \<Rightarrow> int" where
  "exponentPart s =
     (case s of
        [] \<Rightarrow> 0
      | c # r \<Rightarrow>
          if c = CHR ''e'' \<or> c = CHR ''E'' then
            (let (neg, r') =
                   (case r of
                      [] \<Rightarrow> (False, r)
                    | d # t \<Rightarrow> if d = CHR ''-'' then (True, t)
                               else if d = CHR ''+'' then (False, t) else (False, r));
                 ds = takeWhile isDigit r'
             in if ds = [] then 0
                else if neg then - int (decVal ds) else int (decVal ds))
          else 0)"

text \<open>
  The longest prefix that is a \<^verbatim>\<open>StrUnsignedDecimalLiteral\<close> other than \<^verbatim>\<open>Infinity\<close>, and its
  mathematical value: digits, an optional fraction, an optional exponent; \<open>None\<close> when no
  prefix is one.  \<open>parseFloatStr\<close> rounds that value to a Number, as the engines do for a
  literal of any length (ECMAScript lets an implementation round a literal of more than
  20 significant digits from its first 20).
\<close>

definition unsignedDecimal :: "string \<Rightarrow> rat option" where
  "unsignedDecimal s =
     (let ip = takeWhile isDigit s;
          r1 = dropWhile isDigit s;
          dotted = (r1 \<noteq> [] \<and> hd r1 = CHR ''.'');
          fp = (if dotted then takeWhile isDigit (tl r1) else []);
          r2 = (if dotted then dropWhile isDigit (tl r1) else r1)
      in if ip = [] \<and> fp = [] then None
         else
           (let m = of_nat (decVal (ip @ fp)) / 10 ^ length fp;
                e = exponentPart r2
            in Some (if 0 \<le> e then m * 10 ^ nat e else m / 10 ^ nat (- e))))"

definition parseFloatStr :: "string \<Rightarrow> jsnum" where
  "parseFloatStr s =
     (let t = trimStart s;
          neg = (t \<noteq> [] \<and> hd t = CHR ''-'');
          u = (if t \<noteq> [] \<and> (hd t = CHR ''-'' \<or> hd t = CHR ''+'') then tl t else t)
      in if startsWith u ''Infinity'' then (if neg then NegInf else PosInf)
         else
           (case unsignedDecimal u of
              None \<Rightarrow> NaN
            | Some q \<Rightarrow> roundDouble (if neg then - q else q)))"

subsection \<open>Values and the host\<close>

datatype jsval =
    JUndefined
  | JNull
  | JBool bool
  | JNumber jsnum
  | JString string
  | JArray "jsval list"
  | JObject "(string \<times> jsval) list"

text \<open>
  What is left to the \<open>host\<close>: the digits that \<^verbatim>\<open>Number::toString\<close> gives a finite Number
  other than an integer below \<open>2 ^ 53\<close> in magnitude (the shortest digits that read
  back as the same double), the time value of a date string that is not in the form
  recognised by \<open>isoLocal\<close> below (\<open>None\<close> is an invalid date), and the offset of local time
  from UTC in milliseconds at a given local time.
\<close>

record host =
  shortestDigits :: "rat \<Rightarrow> string"
  legacyDateParse :: "string \<Rightarrow> int option"
  localTZA :: "int \<Rightarrow> int"

text \<open>\<^verbatim>\<open>ToBoolean\<close>.\<close>

fun truthy :: "jsval \<Rightarrow> bool" where
  "truthy JUndefined = False"
| "truthy JNull = False"
| "truthy (JBool b) = b"
| "truthy (JNumber n) = (\<not> isNaN n \<and> n \<noteq> Fin 0)"
| "truthy (JString s) = (s \<noteq> [])"
| "truthy (JArray _) = True"
| "truthy (JObject _) = True"

text \<open>
  Property read \<^verbatim>\<open>d[k]\<close>.  An object is the list of its own properties.  Properties that
  a value inherits from its prototype, and the length and index properties of strings and
  arrays, are not modelled: the script reads only \<^verbatim>\<open>date\<close> and a metric key.
\<close>

fun getProp :: "jsval \<Rightarrow> string \<Rightarrow> jsval" where
  "getProp (JObject kvs) k = (case map_of kvs k of None \<Rightarrow> JUndefined | Some v \<Rightarrow> v)"
| "getProp _ k = JUndefined"

function showNat :: "nat \<Rightarrow> string" where
  "showNat n =
     (if n < 10 then [char_of (48 + n)]
      else showNat (n div 10) @ [char_of (48 + n mod 10)])"
  by pat_completeness auto
termination
  by (relation "measure id") auto

declare showNat.simps [simp del]

text \<open>
  \<^verbatim>\<open>Number::toString\<close>, radix 10.  Every integer below \<open>2 ^ 53\<close> in magnitude is a double and
  no shorter digit string reads back as it, so its digits are its decimal digits.
\<close>

definition numberToString :: "host \<Rightarrow> jsnum \<Rightarrow> string" where
  "numberToString h n =
     (case n of
        NaN \<Rightarrow> ''NaN''
      | PosInf \<Rightarrow> ''Infinity''
      | NegInf \<Rightarrow> ''-Infinity''
      | Fin q \<Rightarrow>
          if q = of_int \<lfloor>q\<rfloor> \<and> \<bar>q\<bar> < 2 ^ 53 then
            (if q < 0 then ''-'' @ showNat (nat (- \<lfloor>q\<rfloor>)) else showNat (nat \<lfloor>q\<rfloor>))
          else shortestDigits h q)"

fun joinComma :: "string list \<Rightarrow> string" where
  "joinComma [] = []"
| "joinComma [s] = s"
| "joinComma (s # t # ss) = s @ '','' @ joinComma (t # ss)"

text \<open>
  \<^verbatim>\<open>ToString\<close>; an array is joined with commas, \<^verbatim>\<open>null\<close> and \<^verbatim>\<open>undefined\<close> elements empty.
  An object is taken to have no own property named \<^verbatim>\<open>toString\<close> or \<^verbatim>\<open>valueOf\<close>, so that
  the conversion of \<^verbatim>\<open>Object.prototype\<close> applies.
\<close>

fun toStr :: "host \<Rightarrow> jsval \<Rightarrow> string" where
  "toStr h JUndefined = ''undefined''"
| "toStr h JNull = ''null''"
| "toStr h (JBool b) = (if b then ''true'' else ''false'')"
| "toStr h (JNumber n) = numberToString h n"
| "toStr h (JString s) = s"
| "toStr h (JArray vs) =
     joinComma (map (\<lambda>v. if v = JUndefined \<or> v = JNull then [] else toStr h v) vs)"
| "toStr h (JObject kvs) = ''[object Object]''"

definition parseFloat :: "host \<Rightarrow> jsval \<Rightarrow> jsnum" where
  "parseFloat h v = parseFloatStr (toStr h v)"

subsection \<open>Dates\<close>

text \<open>
  A Date object holds a time value: milliseconds since the epoch, or \<open>NaN\<close> for an invalid
  date.
\<close>

datatype jsdate = InvalidDate | ValidDate int

fun getTime :: "jsdate \<Rightarrow> jsnum" where
  "getTime InvalidDate = NaN"
| "getTime (ValidDate t) = Fin (of_int t)"

definition isLeap :: "int \<Rightarrow> bool" where
  "isLeap yr = (yr mod 4 = 0 \<and> (yr mod 100 \<noteq> 0 \<or> yr mod 400 = 0))"

definition daysInMonth :: "int \<Rightarrow> int \<Rightarrow> int" where
  "daysInMonth yr mo =
     (if mo = 2 then (if isLeap yr then 29 else 28)
      else if mo = 4 \<or> mo = 6 \<or> mo = 9 \<or> mo = 11 then 30 else 31)"

text \<open>Days from 1970-01-01 to the given day of the proleptic Gregorian calendar.\<close>

definition daysFromCivil :: "int \<Rightarrow> int \<Rightarrow> int \<Rightarrow> int" where
  "daysFromCivil yr mo dy =
     (let y' = (if mo \<le> 2 then yr - 1 else yr);
          era = y' div 400;
          yoe = y' - era * 400;
          doy = (153 * (if 2 < mo then mo - 3 else mo + 9) + 2) div 5 + dy - 1;
          doe = yoe * 365 + yoe div 4 - yoe div 100 + doy
      in era * 146097 + doe - 719468)"

definition localMs :: "int \<Rightarrow> int \<Rightarrow> int \<Rightarrow> int \<Rightarrow> int \<Rightarrow> int \<Rightarrow> int" where
  "localMs yr mo dy hh mi ss =
     daysFromCivil yr mo dy * 86400000 + hh * 3600000 + mi * 60000 + ss * 1000"

text \<open>
  The date-time form \<^verbatim>\<open>YYYY-MM-DDTHH:mm:ss\<close> of the Date Time String Format, with every field
  in bounds.  It has no offset, so it is a local time.
\<close>

definition isoLocal :: "string \<Rightarrow> (int \<times> int \<times> int \<times> int \<times> int \<times> int) option" where
  "isoLocal s =
     (if length s = 19 \<and> s ! 4 = CHR ''-'' \<and> s ! 7 = CHR ''-'' \<and> s ! 10 = CHR ''T''
         \<and> s ! 13 = CHR '':'' \<and> s ! 16 = CHR '':''
         \<and> list_all isDigit (take 4 s) \<and> list_all isDigit (take 2 (drop 5 s))
         \<and> list_all isDigit (take 2 (drop 8 s)) \<and> list_all isDigit (take 2 (drop 11 s))
         \<and> list_all isDigit (take 2 (drop 14 s)) \<and> list_all isDigit (take 2 (drop 17 s))
      then
        (let yr = int (decVal (take 4 s));
             mo = int (decVal (take 2 (drop 5 s)));
             dy = int (decVal (take 2 (drop 8 s)));
             hh = int (decVal (take 2 (drop 11 s)));
             mi = int (decVal (take 2 (drop 14 s)));
             ss = int (decVal (take 2 (drop 17 s)))
         in if 1 \<le> mo \<and> mo \<le> 12 \<and> 1 \<le> dy \<and> dy \<le> daysInMonth yr mo
               \<and> (hh \<le> 23 \<or> hh = 24 \<and> mi = 0 \<and> ss = 0) \<and> mi \<le> 59 \<and> ss \<le> 59
            then Some (yr, mo, dy, hh, mi, ss) else None)
      else None)"

definition timeClip :: "int \<Rightarrow> int option" where
  "timeClip t = (if 8640000000000000 < \<bar>t\<bar> then None else Some t)"

text \<open>
  \<^verbatim>\<open>Date.parse\<close>: the time value of a string in the form above is the UTC time of that local
  time; any other string is left to the host.
\<close>

definition dateParse :: "host \<Rightarrow> string \<Rightarrow> int option" where
  "dateParse h s =
     (case isoLocal s of
        Some (yr, mo, dy, hh, mi, ss) \<Rightarrow>
          (let t = localMs yr mo dy hh mi ss in timeClip (t - localTZA h t))
      | None \<Rightarrow> legacyDateParse h s)"

text \<open>\<^verbatim>\<open>new Date(s)\<close> for a string \<open>s\<close>.\<close>

definition newDate :: "host \<Rightarrow> string \<Rightarrow> jsdate" where
  "newDate h s = (case dateParse h s of None \<Rightarrow> InvalidDate | Some t \<Rightarrow> ValidDate t)"

subsection \<open>Array.prototype.sort\<close>

text \<open>
  \<^verbatim>\<open>SortCompare\<close> reads a \<open>NaN\<close> from the comparator as 0.  With a consistent comparator the
  result of \<^verbatim>\<open>sort\<close> is the stable ordering, which is what inserting the elements one by one
  from the right computes; for an inconsistent comparator ECMAScript leaves the order to
  the implementation.
\<close>

definition sortCompare :: "('a \<Rightarrow> 'a \<Rightarrow> jsnum) \<Rightarrow> 'a \<Rightarrow> 'a \<Rightarrow> jsnum" where
  "sortCompare cmp a b = (let v = cmp a b in if isNaN v then Fin 0 else v)"

fun insertSorted :: "('a \<Rightarrow> 'a \<Rightarrow> jsnum) \<Rightarrow> 'a \<Rightarrow> 'a list \<Rightarrow> 'a list" where
  "insertSorted cmp a [] = [a]"
| "insertSorted cmp a (b # bs) =
     (if jsGreater (sortCompare cmp a b) (Fin 0) then b # insertSorted cmp a bs
      else a # b # bs)"

definition arraySort :: "('a \<Rightarrow> 'a \<Rightarrow> jsnum) \<Rightarrow> 'a list \<Rightarrow> 'a list" where
  "arraySort cmp xs = foldr (insertSorted cmp) xs []"

section \<open>The point builder\<close>

text \<open>
  \<^verbatim>\<open>parseDate\<close>: \<^verbatim>\<open>null\<close> (here \<open>None\<close>) for a falsy argument, else the Date of the trimmed
  string with the midday marker appended.
\<close>

definition parseDate :: "host \<Rightarrow> jsval \<Rightarrow> jsdate option" where
  "parseDate h dateStr =
     (if \<not> truthy dateStr then None
      else Some (newDate h (trim (toStr h dateStr) @ ''T12:00:00'')))"

text \<open>
  A chart point \<^verbatim>\<open>{x, y}\<close>.  The point builder puts a Date in \<^verbatim>\<open>x\<close>, the fallback chart
  a Number.
\<close>

datatype xcoord = XDate jsdate | XNumber jsnum

datatype point = Point (pointX: xcoord) (pointY: jsnum)

text \<open>\<^verbatim>\<open>ToNumber\<close> of an \<^verbatim>\<open>x\<close>, as the subtraction in the comparator applies it.\<close>

fun xNumber :: "xcoord \<Rightarrow> jsnum" where
  "xNumber (XDate d) = getTime d"
| "xNumber (XNumber n) = n"

definition byDate :: "point \<Rightarrow> point \<Rightarrow> jsnum" where
  "byDate a b = jsSub (xNumber (pointX a)) (xNumber (pointX b))"

text \<open>The filter \<^verbatim>\<open>d && d.date && d[key] != null && d[key] !== ''\<close>.\<close>

definition hasValue :: "string \<Rightarrow> jsval \<Rightarrow> bool" where
  "hasValue key d =
     (truthy d \<and> truthy (getProp d ''date'')
      \<and> getProp d key \<noteq> JNull \<and> getProp d key \<noteq> JUndefined
      \<and> getProp d key \<noteq> JString [])"

text \<open>The function mapped over the records; \<open>None\<close> is its \<^verbatim>\<open>null\<close>.\<close>

definition toPoint :: "host \<Rightarrow> string \<Rightarrow> jsval \<Rightarrow> point option" where
  "toPoint h key d =
     (let date = parseDate h (getProp d ''date'');
          val = parseFloat h (getProp d key)
      in case date of
           None \<Rightarrow> None
         | Some dt \<Rightarrow>
             if isNaN (getTime dt) \<or> isNaN val then None
             else Some (Point (XDate dt) val))"

fun notNull :: "'a option list \<Rightarrow> 'a list" where
  "notNull [] = []"
| "notNull (None # ps) = notNull ps"
| "notNull (Some p # ps) = p # notNull ps"

definition buildPoints :: "host \<Rightarrow> jsval list \<Rightarrow> string \<Rightarrow> point list" where
  "buildPoints h data key =
     arraySort byDate (notNull (map (toPoint h key) (filter (hasValue key) data)))"

section \<open>The data loader\<close>

text \<open>
  What \<^verbatim>\<open>fetch\<close> and \<^verbatim>\<open>res.json()\<close> can do: \<^verbatim>\<open>fetch\<close> rejects or yields a response with a
  status; \<^verbatim>\<open>res.ok\<close> holds for the statuses 200 to 299; reading the body as JSON throws or
  yields a value.  A thrown exception or a rejected promise is \<open>Inl\<close>, a returned value or
  a fulfilled promise \<open>Inr\<close>.  Writing to the console is not modelled.
\<close>

datatype jserror = FetchError | JsonError | ChartError

datatype response = Response (status: nat) (json: "jserror + jsval")

definition ok :: "response \<Rightarrow> bool" where
  "ok res = (200 \<le> status res \<and> status res \<le> 299)"

definition tryCatch :: "jserror + 'a \<Rightarrow> (jserror \<Rightarrow> jserror + 'a) \<Rightarrow> jserror + 'a" where
  "tryCatch body handler = (case body of Inl e \<Rightarrow> handler e | Inr v \<Rightarrow> Inr v)"

definition measurementsUrl :: "host \<Rightarrow> jsval \<Rightarrow> string" where
  "measurementsUrl h aqId = ''/api/measurements/'' @ toStr h aqId"

definition fetchMeasurements ::
    "host \<Rightarrow> (string \<Rightarrow> jserror + response) \<Rightarrow> jsval \<Rightarrow> jserror + jsval list" where
  "fetchMeasurements h fetch aqId =
     (if \<not> truthy aqId then Inr []
      else
        tryCatch
          (case fetch (measurementsUrl h aqId) of
             Inl e \<Rightarrow> Inl e
           | Inr res \<Rightarrow>
               if \<not> ok res then Inr []
               else
                 (case json res of
                    Inl e \<Rightarrow> Inl e
                  | Inr data \<Rightarrow> Inr (case data of JArray rs \<Rightarrow> rs | _ \<Rightarrow> [])))
          (\<lambda>error. Inr []))"

section \<open>The chart controller\<close>

definition COLORS :: "(string \<times> string) list" where
  "COLORS =
     [(''nitrate'', ''#ff6b6b''),
      (''phosphate'', ''#4ecdc4''),
      (''kh'', ''#45b7d1''),
      (''magnesium'', ''#f7b731''),
      (''calcium'', ''#a55eea'')]"

record dataset =
  label :: string
  points :: "point list"
  borderColor :: string
  backgroundColor :: string
  borderWidth :: nat
  pointRadius :: nat
  pointHoverRadius :: nat
  fill :: bool
  tension :: rat
  spanGaps :: bool

text \<open>
  \<^verbatim>\<open>COLORS[key] || '#ffffff'\<close>: every colour of the table is a non-empty string, so the
  default is taken exactly when the table has no entry for the key.
\<close>

definition colorOf :: "string \<Rightarrow> string" where
  "colorOf key = (case map_of COLORS key of None \<Rightarrow> ''#ffffff'' | Some c \<Rightarrow> c)"

text \<open>\<^verbatim>\<open>createDataset\<close>; the field \<open>points\<close> is the source's \<^verbatim>\<open>data\<close>.\<close>

definition createDataset :: "string \<Rightarrow> point list \<Rightarrow> string \<Rightarrow> dataset" where
  "createDataset lab pts key =
     \<lparr>label = lab,
      points = pts,
      borderColor = colorOf key,
      backgroundColor = colorOf key @ ''20'',
      borderWidth = 2,
      pointRadius = 4,
      pointHoverRadius = 6,
      fill = False,
      tension = 1 / 10,
      spanGaps = False\<rparr>"

datatype metric = Metric (metricKey: string) (metricLabel: string)

text \<open>
  The subscript digits of the first two labels are beyond the code units below 256; they
  stand here as the three bytes of their UTF-8 form.
\<close>

definition metrics :: "metric list" where
  "metrics =
     [Metric ''nitrate'' (''NO'' @ [CHR 0xE2, CHR 0x82, CHR 0x83] @ '' (mg/L)''),
      Metric ''phosphate'' (''PO'' @ [CHR 0xE2, CHR 0x82, CHR 0x84] @ '' (mg/L)''),
      Metric ''kh'' ''KH (dKH)'',
      Metric ''magnesium'' ''Mg (ppm)'',
      Metric ''calcium'' ''Ca (ppm)'']"

text \<open>A metric toggle checkbox: its \<^verbatim>\<open>checked\<close> state and its \<^verbatim>\<open>value\<close>.\<close>

datatype toggle = Toggle (checked: bool) (toggleValue: string)

definition getVisibleMetrics :: "toggle list \<Rightarrow> string list" where
  "getVisibleMetrics toggles =
     (let chk = map toggleValue (filter checked toggles)
      in if length chk \<noteq> 0 then chk else [''nitrate''])"

text \<open>One round of the \<^verbatim>\<open>forEach\<close> in \<^verbatim>\<open>createDatasets\<close>, on the datasets pushed so far.\<close>

definition pushDataset :: "host \<Rightarrow> jsval list \<Rightarrow> dataset list \<Rightarrow> string \<Rightarrow> dataset list" where
  "pushDataset h rawData datasets key =
     (case find (\<lambda>m. metricKey m = key) metrics of
        None \<Rightarrow> datasets
      | Some m \<Rightarrow>
          (let pts = buildPoints h rawData key
           in if 0 < length pts then datasets @ [createDataset (metricLabel m) pts key]
              else datasets))"

definition createDatasets :: "host \<Rightarrow> jsval list \<Rightarrow> toggle list \<Rightarrow> dataset list" where
  "createDatasets h rawData toggles =
     foldl (pushDataset h rawData) [] (getVisibleMetrics toggles)"

text \<open>
  The chart configuration.  Of \<^verbatim>\<open>options\<close> the two scales are kept; \<^verbatim>\<open>responsive\<close>,
  \<^verbatim>\<open>maintainAspectRatio\<close>, \<^verbatim>\<open>interaction\<close> and \<^verbatim>\<open>plugins\<close> are constants that the
  script never changes and are left out.
\<close>

record time_options =
  timeUnit :: string
  displayFormatDay :: string
  tooltipFormat :: string

record axis =
  axisType :: "string option"
  timeOptions :: "time_options option"
  beginAtZero :: "bool option"
  gridColor :: string
  ticksColor :: string

record chart_config =
  chartType :: string
  datasets :: "dataset list"
  scaleX :: axis
  scaleY :: axis

definition chartConfig :: "dataset list \<Rightarrow> chart_config" where
  "chartConfig ds =
     \<lparr>chartType = ''line'',
      datasets = ds,
      scaleX =
        \<lparr>axisType = Some ''time'',
         timeOptions =
           Some \<lparr>timeUnit = ''day'', displayFormatDay = ''MMM dd'',
                 tooltipFormat = ''MMM dd, yyyy''\<rparr>,
         beginAtZero = None,
         gridColor = ''rgba(255, 255, 255, 0.1)'',
         ticksColor = ''#ffffff''\<rparr>,
      scaleY =
        \<lparr>axisType = None,
         timeOptions = None,
         beginAtZero = Some False,
         gridColor = ''rgba(255, 255, 255, 0.1)'',
         ticksColor = ''#ffffff''\<rparr>\<rparr>"

text \<open>The scale that the fallback assigns to \<^verbatim>\<open>chartConfig.options.scales.x\<close>.\<close>

definition linearAxis :: axis where
  "linearAxis =
     \<lparr>axisType = Some ''linear'',
      timeOptions = None,
      beginAtZero = None,
      gridColor = ''rgba(255, 255, 255, 0.1)'',
      ticksColor = ''#ffffff''\<rparr>"

text \<open>\<^verbatim>\<open>dataset.data.map((point, index) => ({ x: index, y: point.y }))\<close>, from \<open>index\<close> on.\<close>

fun indexPoints :: "nat \<Rightarrow> point list \<Rightarrow> point list" where
  "indexPoints i [] = []"
| "indexPoints i (p # ps) = Point (XNumber (Fin (of_nat i))) (pointY p) # indexPoints (Suc i) ps"

definition fallbackDataset :: "dataset \<Rightarrow> dataset" where
  "fallbackDataset ds = ds\<lparr>points := indexPoints 0 (points ds)\<rparr>"

text \<open>
  The page as the handler finds it.  \<open>newChart\<close> is \<^verbatim>\<open>new Chart(ctx, config)\<close>: given the
  configurations of the earlier constructor calls and its own, it throws or returns a
  chart object, of a type the script does not look into.
\<close>

record 'c page =
  selectedAquarium :: jsval
  canvas :: bool
  fetch :: "string \<Rightarrow> jserror + response"
  toggles :: "toggle list"
  newChart :: "chart_config list \<Rightarrow> chart_config \<Rightarrow> jserror + 'c"

text \<open>
  A computation that may throw and that records the constructor calls: the calls made so
  far go in, the result and the calls made come out.
\<close>

type_synonym ('a) charting = "chart_config list \<Rightarrow> (jserror + 'a) \<times> chart_config list"

definition construct :: "'c page \<Rightarrow> chart_config \<Rightarrow> 'c option charting" where
  "construct pg cfg calls =
     (case newChart pg calls cfg of
        Inl e \<Rightarrow> (Inl e, calls @ [cfg])
      | Inr c \<Rightarrow> (Inr (Some c), calls @ [cfg]))"

definition tryCatchS :: "'a charting \<Rightarrow> (jserror \<Rightarrow> 'a charting) \<Rightarrow> 'a charting" where
  "tryCatchS body handler calls =
     (case body calls of
        (Inl e, calls') \<Rightarrow> handler e calls'
      | (Inr v, calls') \<Rightarrow> (Inr v, calls'))"

text \<open>
  The two nested \<^verbatim>\<open>try\<close> blocks.  The variable \<^verbatim>\<open>chart\<close> stays \<^verbatim>\<open>undefined\<close> (\<open>None\<close>) when
  both constructor calls throw.
\<close>

definition renderChart :: "host \<Rightarrow> 'c page \<Rightarrow> jsval list \<Rightarrow> 'c option charting" where
  "renderChart h pg rawData =
     (let cfg = chartConfig (createDatasets h rawData (toggles pg))
      in tryCatchS (construct pg cfg)
           (\<lambda>error.
              tryCatchS
                (let cfg1 = cfg\<lparr>scaleX := linearAxis\<rparr>;
                     fallbackDatasets = map fallbackDataset (createDatasets h rawData (toggles pg));
                     cfg2 = cfg1\<lparr>datasets := fallbackDatasets\<rparr>
                 in construct pg cfg2)
                (\<lambda>fallbackError calls. (Inr None, calls))))"

datatype element = Element (tagName: string) (className: string) (innerHTML: string)

definition noDataMsg :: element where
  "noDataMsg =
     Element ''div'' ''text-center text-muted p-4''
       (''<p>No hay datos de mediciones para este acuario.</p><p>A'' @ [CHR 0xF1]
        @ ''ade algunos registros para ver la gr'' @ [CHR 0xE1] @ ''fica.</p>'')"

text \<open>
  What a run of the handler leaves: the chart, the constructor calls in order, and the
  children appended to the parent of the canvas.
\<close>

record 'c run =
  chart :: "'c option"
  chartCalls :: "chart_config list"
  appended :: "element list"

datatype 'c outcome = CanvasNotFound | NoAquariumSelected | Ran "'c run"

text \<open>
  The \<^verbatim>\<open>DOMContentLoaded\<close> handler up to the notice; the rest of it registers listeners and
  sets the selector background, modelled further down.
\<close>

definition handler :: "host \<Rightarrow> 'c page \<Rightarrow> jserror + 'c outcome" where
  "handler h pg =
     (if \<not> canvas pg then Inr CanvasNotFound
      else if \<not> truthy (selectedAquarium pg) then Inr NoAquariumSelected
      else
        (case fetchMeasurements h (fetch pg) (selectedAquarium pg) of
           Inl e \<Rightarrow> Inl e
         | Inr rawData \<Rightarrow>
             (case renderChart h pg rawData [] of
                (Inl e, calls) \<Rightarrow> Inl e
              | (Inr ch, calls) \<Rightarrow>
                  Inr (Ran \<lparr>chart = ch, chartCalls = calls,
                            appended = (if length rawData = 0 then [noDataMsg] else [])\<rparr>))))"

section \<open>Range validation of number inputs\<close>

text \<open>
  A number input: its \<^verbatim>\<open>value\<close>, its \<^verbatim>\<open>min\<close> and \<^verbatim>\<open>max\<close> content attributes (\<open>None\<close> when
  the element carries none), its class list and its \<^verbatim>\<open>title\<close>.  The properties \<^verbatim>\<open>this.min\<close>
  and \<^verbatim>\<open>this.max\<close> reflect the attributes: the empty string when there is none.
\<close>

record number_input =
  inputValue :: string
  minAttr :: "string option"
  maxAttr :: "string option"
  classList :: "string list"
  title :: string

definition reflect :: "string option \<Rightarrow> string" where
  "reflect a = (case a of None \<Rightarrow> [] | Some s \<Rightarrow> s)"

text \<open>\<^verbatim>\<open>classList.remove\<close> and \<^verbatim>\<open>classList.add\<close> on an ordered set of tokens.\<close>

definition classRemove :: "string list \<Rightarrow> string list \<Rightarrow> string list" where
  "classRemove ts cl = filter (\<lambda>c. c \<notin> set ts) cl"

definition classAdd :: "string \<Rightarrow> string list \<Rightarrow> string list" where
  "classAdd t cl = (if t \<in> set cl then cl else cl @ [t])"

text \<open>
  The \<^verbatim>\<open>input\<close> listener.  The test \<^verbatim>\<open>min !== undefined && max !== undefined\<close> compares
  two Numbers with \<^verbatim>\<open>undefined\<close>.
\<close>

definition rangeInput :: "host \<Rightarrow> number_input \<Rightarrow> number_input" where
  "rangeInput h el =
     (let val = parseFloat h (JString (inputValue el));
          mn = parseFloat h (JString (reflect (minAttr el)));
          mx = parseFloat h (JString (reflect (maxAttr el)));
          el1 = el\<lparr>classList :=
                     classRemove [''border-success'', ''border-warning'', ''border-danger'']
                       (classList el)\<rparr>
      in if isNaN val then el1
         else if JNumber mn \<noteq> JUndefined \<and> JNumber mx \<noteq> JUndefined then
           (if jsLess val mn \<or> jsGreater val mx then
              el1\<lparr>classList := classAdd ''border-danger'' (classList el1),
                   title := ''Valor fuera del rango recomendado ('' @ numberToString h mn
                            @ ''-'' @ numberToString h mx @ '')''\<rparr>
            else
              el1\<lparr>classList := classAdd ''border-success'' (classList el1),
                   title := ''Valor dentro del rango '' @ [CHR 0xF3] @ ''ptimo''\<rparr>)
         else el1)"

section \<open>The selector background\<close>

text \<open>
  The aquarium selector: the \<^verbatim>\<open>data-image\<close> attribute of each option (\<open>None\<close> when an option
  has none), the selected index (\<open>-1\<close> when nothing is selected), the background image of
  its style and its class list; and the background image of the preview element, \<open>None\<close>
  when the page has no preview.
\<close>

record selector_state =
  optionImages :: "string option list"
  selectedIndex :: int
  selectorBackground :: string
  selectorClasses :: "string list"
  previewBackground :: "string option"

definition cssUrl :: "string \<Rightarrow> string" where
  "cssUrl imageUrl = ''url('' @ [CHR 0x27] @ imageUrl @ [CHR 0x27] @ '')''"

text \<open>
  \<^verbatim>\<open>setBackground\<close> up to \<^verbatim>\<open>img.src = imageUrl\<close>: the cleared state, and the URL whose load
  was started, if any.
\<close>

definition setBackground :: "selector_state \<Rightarrow> selector_state \<times> string option" where
  "setBackground st =
     (let selectedOption =
            (if 0 \<le> selectedIndex st \<and> selectedIndex st < int (length (optionImages st))
             then Some (optionImages st ! nat (selectedIndex st)) else None);
          imageUrl = (case selectedOption of None \<Rightarrow> None | Some a \<Rightarrow> a);
          st1 = st\<lparr>selectorBackground := [],
                   selectorClasses := classRemove [''has-background''] (selectorClasses st),
                   previewBackground := map_option (\<lambda>b. []) (previewBackground st)\<rparr>
      in case imageUrl of
           None \<Rightarrow> (st1, None)
         | Some u \<Rightarrow> if u \<noteq> [] then (st1, Some u) else (st1, None))"

text \<open>The two listeners of the probe image.\<close>

definition imgOnload :: "string \<Rightarrow> selector_state \<Rightarrow> selector_state" where
  "imgOnload imageUrl st =
     st\<lparr>selectorBackground := cssUrl imageUrl,
        selectorClasses := classAdd ''has-background'' (selectorClasses st),
        previewBackground := map_option (\<lambda>b. cssUrl imageUrl) (previewBackground st)\<rparr>"

definition imgOnerror :: "string \<Rightarrow> selector_state \<Rightarrow> selector_state" where
  "imgOnerror imageUrl st = st"

text \<open>
  A call of \<^verbatim>\<open>setBackground\<close> followed by the event of its probe image; \<open>loads\<close> tells
  which images load.
\<close>

definition selectionChange :: "(string \<Rightarrow> bool) \<Rightarrow> selector_state \<Rightarrow> selector_state" where
  "selectionChange loads st =
     (case setBackground st of
        (st1, None) \<Rightarrow> st1
      | (st1, Some u) \<Rightarrow> if loads u then imgOnload u st1 else imgOnerror u st1)"

text \<open>\<^verbatim>\<open>updateAquariumSelectorBackground\<close>: nothing without a selector, else the first call.\<close>

definition updateAquariumSelectorBackground ::
    "(string \<Rightarrow> bool) \<Rightarrow> selector_state option \<Rightarrow> selector_state option" where
  "updateAquariumSelectorBackground loads selector =
     (case selector of None \<Rightarrow> None | Some st \<Rightarrow> Some (selectionChange loads st))"

section \<open>A host for the examples\<close>

text \<open>
  Local time is UTC and no date string outside the form of \<open>isoLocal\<close> is accepted.  The
  examples print integers below \<open>2 ^ 53\<close> only, so this host gives no digits for the other
  Numbers.
\<close>

definition utcHost :: host where
  "utcHost =
     \<lparr>shortestDigits = (\<lambda>q. []),
      legacyDateParse = (\<lambda>s. None),
      localTZA = (\<lambda>t. 0)\<rparr>"

section \<open>Notions and inputs of the properties\<close>

text \<open>A point whose \<^verbatim>\<open>x\<close> is a valid Date, and the time value of such a point.\<close>

definition dated :: "point \<Rightarrow> bool" where
  "dated p = (\<exists>t. pointX p = XDate (ValidDate t))"

definition timeOf :: "point \<Rightarrow> int" where
  "timeOf p = (case pointX p of XDate (ValidDate t) \<Rightarrow> t | _ \<Rightarrow> 0)"

text \<open>The three records of the worked example, and a record whose value reads \<^verbatim>\<open>Infinity\<close>.\<close>

definition exampleRecords :: "jsval list" where
  "exampleRecords =
     [JObject [(''date'', JString ''2024-01-01''), (''nitrate'', JString ''5'')],
      JObject [(''date'', JString ''2024-01-03''), (''nitrate'', JString ''bad'')],
      JObject [(''date'', JString ''2024-01-02''), (''nitrate'', JString ''7'')]]"

definition infinityRecord :: jsval where
  "infinityRecord =
     JObject [(''date'', JString ''2024-01-01''), (''nitrate'', JString ''Infinity'')]"

text \<open>A network that answers the measurements request of aquarium 1 with \<open>r\<close>.\<close>

definition serving :: "jserror + response \<Rightarrow> string \<Rightarrow> jserror + response" where
  "serving r u = (if u = ''/api/measurements/1'' then r else Inr (Response 404 (Inl JsonError)))"

text \<open>The label of the nitrate metric.\<close>

definition nitrateLabel :: string where
  "nitrateLabel = ''NO'' @ [CHR 0xE2, CHR 0x82, CHR 0x83] @ '' (mg/L)''"

text \<open>Two toggles, none checked.\<close>

definition uncheckedToggles :: "toggle list" where
  "uncheckedToggles = [Toggle False ''nitrate'', Toggle False ''phosphate'']"

text \<open>
  A page with a canvas, aquarium 1 selected, the nitrate toggle checked, a server that
  answers with the records \<open>rs\<close>, and the chart constructor \<open>ctor\<close>.
\<close>

definition pageServing ::
    "jsval list \<Rightarrow> (chart_config list \<Rightarrow> chart_config \<Rightarrow> jserror + 'c) \<Rightarrow> 'c page" where
  "pageServing rs ctor =
     \<lparr>selectedAquarium = JNumber (Fin 1),
      canvas = True,
      fetch = serving (Inr (Response 200 (Inr (JArray rs)))),
      toggles = [Toggle True ''nitrate'', Toggle False ''phosphate''],
      newChart = ctor\<rparr>"

text \<open>
  Three chart constructors.  The chart object is taken to be the configuration it was
  built from.  The first always succeeds, the second throws on a time scale (the date
  adapter is missing), the third always throws.
\<close>

definition alwaysConstructs :: "chart_config list \<Rightarrow> chart_config \<Rightarrow> jserror + chart_config" where
  "alwaysConstructs calls cfg = Inr cfg"

definition timeScaleFails :: "chart_config list \<Rightarrow> chart_config \<Rightarrow> jserror + chart_config" where
  "timeScaleFails calls cfg =
     (if axisType (scaleX cfg) = Some ''time'' then Inl ChartError else Inr cfg)"

definition alwaysFails :: "chart_config list \<Rightarrow> chart_config \<Rightarrow> jserror + chart_config" where
  "alwaysFails calls cfg = Inl ChartError"

text \<open>The datasets of the worked example under \<open>utcHost\<close>, and its fallback configuration.\<close>

definition exampleDatasets :: "dataset list" where
  "exampleDatasets =
     [createDataset nitrateLabel
        [Point (XDate (ValidDate 1704110400000)) (Fin 5),
         Point (XDate (ValidDate 1704196800000)) (Fin 7)] ''nitrate'']"

definition exampleFallback :: chart_config where
  "exampleFallback =
     (chartConfig
        [createDataset nitrateLabel
           [Point (XNumber (Fin 0)) (Fin 5), Point (XNumber (Fin 1)) (Fin 7)] ''nitrate''])
     \<lparr>scaleX :=
        \<lparr>axisType = Some ''linear'', timeOptions = None, beginAtZero = None,
         gridColor = ''rgba(255, 255, 255, 0.1)'', ticksColor = ''#ffffff''\<rparr>\<rparr>"

text \<open>The three classes that the range listener removes, and its tooltip for a value in range.\<close>

definition rangeClasses :: "string list" where
  "rangeClasses = [''border-success'', ''border-warning'', ''border-danger'']"

definition optimalTitle :: string where
  "optimalTitle = ''Valor dentro del rango '' @ [CHR 0xF3] @ ''ptimo''"

text \<open>
  A number input with the bounds 0 and 10 that shows the success class from an earlier
  event, and a number input without bounds; \<open>v\<close> is the current value.
\<close>

definition boundedInput :: "string \<Rightarrow> number_input" where
  "boundedInput v =
     \<lparr>inputValue = v, minAttr = Some ''0'', maxAttr = Some ''10'',
      classList = [''form-control'', ''border-success''], title = ''Nitrato''\<rparr>"

definition unboundedInput :: "string \<Rightarrow> number_input" where
  "unboundedInput v =
     \<lparr>inputValue = v, minAttr = None, maxAttr = None,
      classList = [''form-control''], title = ''Notas''\<rparr>"

text \<open>
  A selector that shows the image of its first option while the second has just been
  selected, and a network on which no image loads.
\<close>

definition shownSelector :: selector_state where
  "shownSelector =
     \<lparr>optionImages = [Some ''/static/a.png'', Some ''/static/b.png''],
      selectedIndex = 1,
      selectorBackground = cssUrl ''/static/a.png'',
      selectorClasses = [''form-select'', ''has-background''],
      previewBackground = Some (cssUrl ''/static/a.png'')\<rparr>"

definition noImageLoads :: "string \<Rightarrow> bool" where
  "noImageLoads u = False"

section \<open>Evaluation of the runtime functions\<close>

lemma pow2_pos: "0 < pow2 k"
  by (simp add: pow2_def)

lemma pow2_nonpos: "k \<le> 0 \<Longrightarrow> pow2 k = 1 / 2 ^ nat (- k)"
  by (cases "k = 0") (simp_all add: pow2_def)

lemma pow2_mono: "j \<le> k \<Longrightarrow> pow2 j \<le> pow2 k"
proof -
  assume jk: "j \<le> k"
  have p: "pow2 i = 2 powi i" for i
    by (simp add: pow2_def power_int_def field_simps)
  show ?thesis unfolding p using jk by (simp add: power_int_increasing)
qed

lemma roundHalfEven_ge_floor: "\<lfloor>r\<rfloor> \<le> roundHalfEven r"
  by (simp add: roundHalfEven_def Let_def)

lemma roundHalfEven_of_int: "roundHalfEven (of_int n) = n"
  by (simp add: roundHalfEven_def Let_def)

lemma binade_ge1:
  assumes "1 \<le> a"
  shows "0 \<le> binade a \<and> pow2 (binade a) \<le> a"
proof -
  let ?x = "nat \<lfloor>a\<rfloor>"
  from assms have x: "0 < ?x" by simp
  have k: "1 \<le> floorlog 2 ?x"
    using x by (simp add: floorlog_def)
  have b: "2 ^ (floorlog 2 ?x - 1) \<le> ?x"
    using floorlog_bounds [of ?x 2] x by simp
  have e: "binade a = int (floorlog 2 ?x - 1)"
    using assms k by (simp add: binade_def)
  have "pow2 (binade a) = 2 ^ (floorlog 2 ?x - 1)"
    unfolding e by (simp add: pow2_def)
  also have "\<dots> = of_nat (2 ^ (floorlog 2 ?x - 1))" by simp
  also have "\<dots> \<le> of_nat ?x" using b by (simp only: of_nat_le_iff)
  also have "\<dots> = of_int \<lfloor>a\<rfloor>" using assms by simp
  also have "\<dots> \<le> a" by simp
  finally show ?thesis using e by simp
qed

text \<open>Rounding keeps the sign of a value of magnitude at least 1, and never gives \<open>NaN\<close>.\<close>

lemma roundDouble_sign:
  assumes "1 \<le> \<bar>q\<bar>"
  shows "\<not> isNaN (roundDouble q) \<and> jsLess (Fin 0) (roundDouble q) = (0 < q)"
proof -
  let ?a = "\<bar>q\<bar>"
  let ?e = "max (binade ?a) (- 1022)"
  let ?ulp = "pow2 (?e - 52)"
  let ?m = "roundHalfEven (?a / ?ulp)"
  from assms have q0: "q \<noteq> 0" by auto
  from binade_ge1 [OF assms] have e: "?e = binade ?a" and le: "pow2 (binade ?a) \<le> ?a"
    by simp_all
  have "?ulp \<le> pow2 (binade ?a)" unfolding e by (rule pow2_mono) simp
  with le have "?ulp \<le> ?a" by simp
  then have "1 \<le> ?a / ?ulp" using pow2_pos [of "?e - 52"] by (simp add: pos_le_divide_eq)
  then have "1 \<le> \<lfloor>?a / ?ulp\<rfloor>" by (simp add: le_floor_iff)
  with roundHalfEven_ge_floor [of "?a / ?ulp"] have m: "0 < ?m" by linarith
  then have mu: "0 < of_int ?m * ?ulp" using pow2_pos [of "?e - 52"] by simp
  show ?thesis
  proof (cases "0 < q")
    case True
    with q0 mu show ?thesis by (simp add: roundDouble_def Let_def)
  next
    case False
    with q0 have "q < 0" by simp
    with q0 mu show ?thesis by (simp add: roundDouble_def Let_def)
  qed
qed

lemma roundDouble_eval:
  assumes "q \<noteq> 0" and "max (binade \<bar>q\<bar>) (- 1022) = e" and "pow2 (e - 52) = u"
    and "roundHalfEven (\<bar>q\<bar> / u) = m" and "\<not> (1024 \<le> e \<or> (e = 1023 \<and> m = 2 ^ 53))"
  shows "roundDouble q = Fin ((if 0 < q then 1 else - 1) * of_int m * u)"
  unfolding roundDouble_def Let_def assms(2) assms(3) assms(4)
  using assms(1,5) by (simp only: if_False)

text \<open>An integer below \<open>2 ^ 53\<close> in magnitude is a double: rounding leaves it as it is.\<close>

lemma roundDouble_of_int:
  assumes "\<bar>n\<bar> < 2 ^ 53"
  shows "roundDouble (of_int n) = Fin (of_int n)"
proof (cases "n = 0")
  case True
  then show ?thesis by (simp add: roundDouble_def)
next
  case False
  let ?x = "nat \<bar>n\<bar>"
  let ?k = "floorlog 2 ?x"
  from False have x: "0 < ?x" by simp
  have a1: "(1::rat) \<le> \<bar>of_int n\<bar>" using False by (simp flip: of_int_abs)
  have k1: "1 \<le> ?k" using x by (simp add: floorlog_def)
  have "?x < 2 ^ 53" using assms by (simp add: nat_less_iff)
  then have k53: "?k \<le> 53" by (simp add: floorlog_le_iff)
  have fl: "nat \<lfloor>\<bar>rat_of_int n\<bar>\<rfloor> = ?x" by (simp flip: of_int_abs)
  have e: "binade \<bar>of_int n\<bar> = int ?k - 1"
    using a1 by (simp add: binade_def fl)
  then have me: "max (binade \<bar>rat_of_int n\<bar>) (- 1022) = int ?k - 1" using k1 by simp
  have ulp: "pow2 (int ?k - 1 - 52) = 1 / 2 ^ (53 - ?k)"
    using k53 by (simp add: pow2_nonpos nat_diff_distrib')
  have div: "\<bar>rat_of_int n\<bar> / (1 / 2 ^ (53 - ?k)) = of_int (\<bar>n\<bar> * 2 ^ (53 - ?k))"
    by simp
  have m: "roundHalfEven (\<bar>rat_of_int n\<bar> / (1 / 2 ^ (53 - ?k))) = \<bar>n\<bar> * 2 ^ (53 - ?k)"
    unfolding div by (rule roundHalfEven_of_int)
  have nov: "\<not> (1024 \<le> int ?k - 1 \<or> (int ?k - 1 = 1023 \<and> \<bar>n\<bar> * 2 ^ (53 - ?k) = 2 ^ 53))"
    using k53 by simp
  have n0: "rat_of_int n \<noteq> 0" using False by simp
  have "roundDouble (of_int n) =
      Fin ((if 0 < rat_of_int n then 1 else - 1) * of_int (\<bar>n\<bar> * 2 ^ (53 - ?k))
           * (1 / 2 ^ (53 - ?k)))"
    by (rule roundDouble_eval [OF n0 me ulp m nov])
  also have "(if 0 < rat_of_int n then 1 else - 1) * rat_of_int (\<bar>n\<bar> * 2 ^ (53 - ?k))
      * (1 / 2 ^ (53 - ?k)) = of_int n"
    by simp
  finally show ?thesis .
qed

lemma roundDouble_small:
  "roundDouble 0 = Fin 0" "roundDouble 5 = Fin 5" "roundDouble 7 = Fin 7"
  "roundDouble 10 = Fin 10" "roundDouble 15 = Fin 15"
  using roundDouble_of_int [of 0] roundDouble_of_int [of 5] roundDouble_of_int [of 7]
    roundDouble_of_int [of 10] roundDouble_of_int [of 15]
  by simp_all

text \<open>The decimal \<^verbatim>\<open>10.0000000000000001\<close> lies between two doubles and rounds to 10.\<close>

lemma roundDouble_above_10:
  "roundDouble (100000000000000001 / 10000000000000000) = Fin 10"
proof -
  let ?q = "100000000000000001 / 10000000000000000 :: rat"
  have f: "\<lfloor>?q\<rfloor> = 10"
    by (simp add: floor_eq_iff)
  have b: "max (binade \<bar>?q\<bar>) (- 1022) = 3"
    by (simp add: binade_def f compute_floorlog)
  have u: "pow2 (3 - 52) = 1 / 2 ^ 49"
    by (simp add: pow2_def)
  have g: "\<lfloor>\<bar>?q\<bar> / (1 / 2 ^ 49)\<rfloor> = 10 * 2 ^ 49"
    by (simp add: floor_eq_iff)
  have m: "roundHalfEven (\<bar>?q\<bar> / (1 / 2 ^ 49)) = 10 * 2 ^ 49"
    unfolding roundHalfEven_def Let_def g by simp
  have "roundDouble ?q = Fin ((if 0 < ?q then 1 else - 1) * of_int (10 * 2 ^ 49) * (1 / 2 ^ 49))"
    by (rule roundDouble_eval [OF _ b u m]) simp_all
  then show ?thesis by simp
qed

lemmas parse_defs = parseFloatStr_def trimStart_def isWhite_def startsWith_def
  unsignedDecimal_def isDigit_def decVal_def digitVal_def exponentPart_def

lemma parseFloatStr_5: "parseFloatStr ''5'' = Fin 5"
  by (simp add: parse_defs roundDouble_small)

lemma parseFloatStr_7: "parseFloatStr ''7'' = Fin 7"
  by (simp add: parse_defs roundDouble_small)

lemma parseFloatStr_bad: "parseFloatStr ''bad'' = NaN"
  by (simp add: parse_defs)

lemma parseFloatStr_Infinity: "parseFloatStr ''Infinity'' = PosInf"
  by (simp add: parse_defs)

lemma parseFloatStr_empty: "parseFloatStr [] = NaN"
  by (simp add: parse_defs)

lemmas date_defs = isoLocal_def isDigit_def decVal_def digitVal_def daysInMonth_def isLeap_def
  localMs_def daysFromCivil_def

lemma iso_jan1: "isoLocal ''2024-01-01T12:00:00'' = Some (2024, 1, 1, 12, 0, 0)"
  by (simp add: date_defs)

lemma iso_jan2: "isoLocal ''2024-01-02T12:00:00'' = Some (2024, 1, 2, 12, 0, 0)"
  by (simp add: date_defs)

lemma ms_jan1: "localMs 2024 1 1 12 0 0 = 1704110400000"
  by (simp add: date_defs)

lemma ms_jan2: "localMs 2024 1 2 12 0 0 = 1704196800000"
  by (simp add: date_defs)

lemma parseDate_jan1:
  "parseDate h (JString ''2024-01-01'') =
     Some (case timeClip (1704110400000 - localTZA h 1704110400000) of
             None \<Rightarrow> InvalidDate | Some t \<Rightarrow> ValidDate t)"
  by (simp add: parseDate_def newDate_def dateParse_def trim_def isWhite_def iso_jan1 ms_jan1)

lemma parseDate_jan2:
  "parseDate h (JString ''2024-01-02'') =
     Some (case timeClip (1704196800000 - localTZA h 1704196800000) of
             None \<Rightarrow> InvalidDate | Some t \<Rightarrow> ValidDate t)"
  by (simp add: parseDate_def newDate_def dateParse_def trim_def isWhite_def iso_jan2 ms_jan2)

lemma timeClip_near:
  "\<bar>z\<bar> \<le> 86400000 \<Longrightarrow> timeClip (1704110400000 - z) = Some (1704110400000 - z)"
  "\<bar>z\<bar> \<le> 86400000 \<Longrightarrow> timeClip (1704196800000 - z) = Some (1704196800000 - z)"
  by (simp_all add: timeClip_def)

lemma showNat_1: "showNat 1 = ''1''"
  by code_simp

lemma showNat_Suc_0: "showNat (Suc 0) = ''1''"
  using showNat_1 by simp

lemma url_1: "measurementsUrl utcHost (JNumber (Fin 1)) = ''/api/measurements/1''"
  by (simp add: measurementsUrl_def numberToString_def showNat_Suc_0)

lemma parseFloatStr_0: "parseFloatStr ''0'' = Fin 0"
  by (simp add: parse_defs roundDouble_small)

lemma parseFloatStr_10: "parseFloatStr ''10'' = Fin 10"
  by (simp add: parse_defs roundDouble_small)

lemma parseFloatStr_15: "parseFloatStr ''15'' = Fin 15"
  by (simp add: parse_defs roundDouble_small)

lemma parseFloatStr_above_10: "parseFloatStr ''10.0000000000000001'' = Fin 10"
  by (simp add: parse_defs roundDouble_above_10)

lemma showNat_0: "showNat 0 = ''0''"
  by code_simp

lemma showNat_10: "showNat 10 = ''10''"
  by code_simp

lemma numberToString_0: "numberToString h (Fin 0) = ''0''"
  by (simp add: numberToString_def showNat_0)

lemma numberToString_10: "numberToString h (Fin 10) = ''10''"
  by (simp add: numberToString_def showNat_10)

section \<open>The point builder: what it emits\<close>

lemma toPoint_Some:
  assumes "toPoint h key d = Some p"
  shows "(\<exists>t. pointX p = XDate (ValidDate t)) \<and> \<not> isNaN (pointY p)"
proof -
  from assms obtain dt where dt: "parseDate h (getProp d ''date'') = Some dt"
    and nn: "\<not> isNaN (getTime dt)" "\<not> isNaN (parseFloat h (getProp d key))"
    and p: "p = Point (XDate dt) (parseFloat h (getProp d key))"
    by (auto simp: toPoint_def Let_def split: option.splits if_splits)
  from nn(1) obtain t where "dt = ValidDate t" by (cases dt) auto
  with p nn(2) show ?thesis by simp
qed

lemma set_notNull: "set (notNull ps) = {p. Some p \<in> set ps}"
  by (induction ps rule: notNull.induct) auto

lemma set_insertSorted: "set (insertSorted cmp a bs) = insert a (set bs)"
  by (induction bs) auto

lemma set_arraySort: "set (arraySort cmp xs) = set xs"
  by (induction xs) (auto simp: arraySort_def set_insertSorted)

lemma set_buildPoints:
  "p \<in> set (buildPoints h data key) \<Longrightarrow>
   \<exists>d \<in> set data. hasValue key d \<and> toPoint h key d = Some p"
  by (auto simp: buildPoints_def set_arraySort set_notNull)

lemma toPoint_jan1:
  assumes "\<bar>localTZA h 1704110400000\<bar> \<le> 86400000"
  shows "toPoint h ''nitrate'' (JObject [(''date'', JString ''2024-01-01''), (''nitrate'', JString v)])
    = (if isNaN (parseFloatStr v) then None
       else Some (Point (XDate (ValidDate (1704110400000 - localTZA h 1704110400000)))
                    (parseFloatStr v)))"
  using assms by (simp add: toPoint_def parseDate_jan1 timeClip_near parseFloat_def)

lemma toPoint_jan2:
  assumes "\<bar>localTZA h 1704196800000\<bar> \<le> 86400000"
  shows "toPoint h ''nitrate'' (JObject [(''date'', JString ''2024-01-02''), (''nitrate'', JString v)])
    = (if isNaN (parseFloatStr v) then None
       else Some (Point (XDate (ValidDate (1704196800000 - localTZA h 1704196800000)))
                    (parseFloatStr v)))"
  using assms by (simp add: toPoint_def parseDate_jan2 timeClip_near parseFloat_def)

lemma toPoint_bad:
  "toPoint h ''nitrate'' (JObject [(''date'', d), (''nitrate'', JString ''bad'')]) = None"
  by (simp add: toPoint_def parseFloat_def parseFloatStr_bad split: option.splits)

lemma buildPoints_infinityRecord:
  "buildPoints utcHost [infinityRecord] ''nitrate'' =
     [Point (XDate (ValidDate 1704110400000)) PosInf]"
proof -
  have "toPoint utcHost ''nitrate'' infinityRecord =
      Some (Point (XDate (ValidDate 1704110400000)) PosInf)"
    unfolding infinityRecord_def
    by (simp add: toPoint_jan1 utcHost_def parseFloatStr_Infinity)
  then show ?thesis
    by (simp add: buildPoints_def hasValue_def infinityRecord_def arraySort_def)
qed

text \<open>
  C2, as the code has it.  Every point that \<open>buildPoints\<close> emits has a \<^verbatim>\<open>y\<close> that is not
  \<open>NaN\<close> and an \<^verbatim>\<open>x\<close> that is a valid Date.  The value is tested with \<^verbatim>\<open>isNaN\<close> only, so
  it may be an infinity.
\<close>

theorem buildPoints_valid:
  "\<forall>p \<in> set (buildPoints h data key).
     \<not> isNaN (pointY p) \<and> (\<exists>t. pointX p = XDate (ValidDate t))"
  using set_buildPoints toPoint_Some by blast

theorem buildPoints_valid_witness:
  "Point (XDate (ValidDate 1704110400000)) PosInf
     \<in> set (buildPoints utcHost [infinityRecord] ''nitrate'')
   \<and> \<not> isNaN PosInf \<and> (\<exists>t. XDate (ValidDate 1704110400000) = XDate (ValidDate t))"
  using buildPoints_valid [of utcHost "[infinityRecord]" "''nitrate''"]
  by (simp add: buildPoints_infinityRecord)

text \<open>
  C2 as stated fails: a record whose nitrate value is the string \<^verbatim>\<open>Infinity\<close> yields a
  point whose \<^verbatim>\<open>y\<close> is the positive infinity, which is not a finite number.
\<close>

theorem buildPoints_infinite_value:
  "buildPoints utcHost [infinityRecord] ''nitrate'' =
     [Point (XDate (ValidDate 1704110400000)) PosInf]"
  by (rule buildPoints_infinityRecord)

section \<open>The point builder: order\<close>

lemma compare_times:
  "\<not> isNaN (roundDouble (of_int s - of_int t))
   \<and> jsLess (Fin 0) (roundDouble (of_int s - of_int t)) = (t < s)"
proof (cases "s = t")
  case True
  then show ?thesis by (simp add: roundDouble_def)
next
  case False
  then have "1 \<le> \<bar>rat_of_int (s - t)\<bar>" by (simp flip: of_int_abs)
  from roundDouble_sign [OF this] show ?thesis by simp
qed

lemma byDate_dated:
  "dated a \<Longrightarrow> dated b \<Longrightarrow>
   jsGreater (sortCompare byDate a b) (Fin 0) = (timeOf b < timeOf a)"
  using compare_times
  by (auto simp: dated_def timeOf_def byDate_def sortCompare_def jsGreater_def Let_def)

lemma sorted_insertSorted:
  "dated a \<Longrightarrow> \<forall>b \<in> set bs. dated b \<Longrightarrow> sorted (map timeOf bs) \<Longrightarrow>
   sorted (map timeOf (insertSorted byDate a bs))"
proof (induction bs)
  case Nil
  then show ?case by simp
next
  case (Cons b bs)
  then show ?case
    by (auto simp: byDate_dated set_insertSorted)
qed

lemma sorted_arraySort:
  "\<forall>b \<in> set xs. dated b \<Longrightarrow> sorted (map timeOf (arraySort byDate xs))"
proof (induction xs)
  case Nil
  then show ?case by (simp add: arraySort_def)
next
  case (Cons a xs)
  have "set (foldr (insertSorted byDate) xs []) = set xs"
    using set_arraySort [of byDate xs] by (simp add: arraySort_def)
  with Cons show ?case
    by (simp add: arraySort_def sorted_insertSorted)
qed

lemma dated_buildPoints: "p \<in> set (buildPoints h data key) \<Longrightarrow> dated p"
  using set_buildPoints toPoint_Some unfolding dated_def by blast

text \<open>
  C7.  For every record list and every key, the \<^verbatim>\<open>x\<close> of the points of \<open>buildPoints\<close> are
  valid Dates whose time values, in the order of the list, are ascending.
\<close>

theorem buildPoints_sorted:
  "\<exists>ts. map pointX (buildPoints h data key) = map (\<lambda>t. XDate (ValidDate t)) ts \<and> sorted ts"
proof -
  let ?ps = "buildPoints h data key"
  have d: "\<forall>p \<in> set ?ps. dated p" using dated_buildPoints by blast
  have "\<forall>b \<in> set (notNull (map (toPoint h key) (filter (hasValue key) data))). dated b"
    using toPoint_Some by (auto simp: set_notNull dated_def)
  then have s: "sorted (map timeOf ?ps)"
    unfolding buildPoints_def by (rule sorted_arraySort)
  have "map pointX ?ps = map (\<lambda>t. XDate (ValidDate t)) (map timeOf ?ps)"
    using d by (auto simp: dated_def timeOf_def)
  with s show ?thesis by blast
qed

lemma buildPoints_exampleRecords:
  assumes "\<bar>localTZA h 1704110400000\<bar> \<le> 86400000"
    and "\<bar>localTZA h 1704196800000\<bar> \<le> 86400000"
    and "localTZA h 1704196800000 - localTZA h 1704110400000 < 86400000"
  shows "buildPoints h exampleRecords ''nitrate'' =
    [Point (XDate (ValidDate (1704110400000 - localTZA h 1704110400000))) (Fin 5),
     Point (XDate (ValidDate (1704196800000 - localTZA h 1704196800000))) (Fin 7)]"
proof -
  have f: "filter (hasValue ''nitrate'') exampleRecords = exampleRecords"
    by (simp add: exampleRecords_def hasValue_def)
  have m: "notNull (map (toPoint h ''nitrate'') exampleRecords) =
    [Point (XDate (ValidDate (1704110400000 - localTZA h 1704110400000))) (Fin 5),
     Point (XDate (ValidDate (1704196800000 - localTZA h 1704196800000))) (Fin 7)]"
    using assms(1,2)
    by (simp add: exampleRecords_def toPoint_jan1 toPoint_jan2 toPoint_bad
        parseFloatStr_5 parseFloatStr_7)
  show ?thesis
    unfolding buildPoints_def f m using assms(3)
    by (simp add: arraySort_def byDate_dated dated_def timeOf_def)
qed

lemma buildPoints_exampleRecords_utc:
  "buildPoints utcHost exampleRecords ''nitrate'' =
    [Point (XDate (ValidDate 1704110400000)) (Fin 5),
     Point (XDate (ValidDate 1704196800000)) (Fin 7)]"
  using buildPoints_exampleRecords [of utcHost] by (simp add: utcHost_def)

text \<open>
  C8.  On the three records of the example and the key \<^verbatim>\<open>nitrate\<close>, \<open>buildPoints\<close> returns
  exactly two points: local noon of 1 January 2024 with 5, then local noon of 2 January
  2024 with 7.  The record with the value \<^verbatim>\<open>bad\<close> is dropped.  The host's offsets from UTC
  at the two noons are at most a day and do not differ by a day.
\<close>

theorem buildPoints_example:
  assumes "\<bar>localTZA h 1704110400000\<bar> \<le> 86400000"
    and "\<bar>localTZA h 1704196800000\<bar> \<le> 86400000"
    and "localTZA h 1704196800000 - localTZA h 1704110400000 < 86400000"
  shows "buildPoints h exampleRecords ''nitrate'' =
    [Point (XDate (ValidDate (1704110400000 - localTZA h 1704110400000))) (Fin 5),
     Point (XDate (ValidDate (1704196800000 - localTZA h 1704196800000))) (Fin 7)]"
  using assms by (rule buildPoints_exampleRecords)

theorem buildPoints_example_witness:
  "\<bar>localTZA utcHost 1704110400000\<bar> \<le> 86400000
   \<and> \<bar>localTZA utcHost 1704196800000\<bar> \<le> 86400000
   \<and> localTZA utcHost 1704196800000 - localTZA utcHost 1704110400000 < 86400000
   \<and> buildPoints utcHost exampleRecords ''nitrate'' =
       [Point (XDate (ValidDate 1704110400000)) (Fin 5),
        Point (XDate (ValidDate 1704196800000)) (Fin 7)]"
  using buildPoints_example [of utcHost] by (simp add: utcHost_def)

section \<open>The data loader: every failure is an empty list\<close>

text \<open>
  C6.  \<open>fetchMeasurements\<close> returns the empty list when the identifier is falsy, when
  \<^verbatim>\<open>fetch\<close> rejects, when the status is not a success, when reading the body throws, and
  when the body is not an array; it returns the parsed list when the identifier is truthy,
  the status is a success and the body is an array, and a non-empty list only then; it
  never rejects.
\<close>

theorem fetchMeasurements_cases:
  "(\<not> truthy aqId \<longrightarrow> fetchMeasurements h f aqId = Inr [])
   \<and> (f (measurementsUrl h aqId) = Inl e \<longrightarrow> fetchMeasurements h f aqId = Inr [])
   \<and> (f (measurementsUrl h aqId) = Inr res \<and> \<not> ok res \<longrightarrow>
        fetchMeasurements h f aqId = Inr [])
   \<and> (f (measurementsUrl h aqId) = Inr res \<and> json res = Inl e \<longrightarrow>
        fetchMeasurements h f aqId = Inr [])
   \<and> (f (measurementsUrl h aqId) = Inr res \<and> json res = Inr v \<and> (\<forall>rs. v \<noteq> JArray rs) \<longrightarrow>
        fetchMeasurements h f aqId = Inr [])
   \<and> (truthy aqId \<and> f (measurementsUrl h aqId) = Inr res \<and> ok res
        \<and> json res = Inr (JArray rs) \<longrightarrow>
        fetchMeasurements h f aqId = Inr rs)
   \<and> (fetchMeasurements h f aqId = Inr rs \<and> rs \<noteq> [] \<longrightarrow>
        truthy aqId
        \<and> (\<exists>r. f (measurementsUrl h aqId) = Inr r \<and> ok r \<and> json r = Inr (JArray rs)))
   \<and> (\<exists>xs. fetchMeasurements h f aqId = Inr xs)"
  by (auto simp: fetchMeasurements_def tryCatch_def split: sum.splits jsval.splits if_splits)

theorem fetchMeasurements_cases_witness:
  "fetchMeasurements utcHost (serving (Inr (Response 200 (Inr (JArray exampleRecords)))))
     JUndefined = Inr []
   \<and> fetchMeasurements utcHost (serving (Inl FetchError)) (JNumber (Fin 1)) = Inr []
   \<and> fetchMeasurements utcHost (serving (Inr (Response 500 (Inr (JArray exampleRecords)))))
       (JNumber (Fin 1)) = Inr []
   \<and> fetchMeasurements utcHost (serving (Inr (Response 200 (Inl JsonError))))
       (JNumber (Fin 1)) = Inr []
   \<and> fetchMeasurements utcHost (serving (Inr (Response 200 (Inr (JObject [])))))
       (JNumber (Fin 1)) = Inr []
   \<and> fetchMeasurements utcHost (serving (Inr (Response 200 (Inr (JArray exampleRecords)))))
       (JNumber (Fin 1)) = Inr exampleRecords
   \<and> (\<exists>r. serving (Inr (Response 200 (Inr (JArray exampleRecords))))
              (measurementsUrl utcHost (JNumber (Fin 1))) = Inr r
         \<and> ok r \<and> json r = Inr (JArray exampleRecords))"
proof -
  let ?full = "Inr (Response 200 (Inr (JArray exampleRecords)))"
  let ?id = "JNumber (Fin 1)"
  have 1: "\<not> truthy JUndefined" by simp
  have 2: "serving (Inl FetchError) (measurementsUrl utcHost ?id) = Inl FetchError"
    by (simp add: url_1 serving_def)
  have 3: "serving (Inr (Response 500 (Inr (JArray exampleRecords)))) (measurementsUrl utcHost ?id)
      = Inr (Response 500 (Inr (JArray exampleRecords)))
    \<and> \<not> ok (Response 500 (Inr (JArray exampleRecords)))"
    by (simp add: url_1 serving_def ok_def)
  have 4: "serving (Inr (Response 200 (Inl JsonError))) (measurementsUrl utcHost ?id)
      = Inr (Response 200 (Inl JsonError))
    \<and> json (Response 200 (Inl JsonError)) = Inl JsonError"
    by (simp add: url_1 serving_def)
  have 5: "serving (Inr (Response 200 (Inr (JObject [])))) (measurementsUrl utcHost ?id)
      = Inr (Response 200 (Inr (JObject [])))
    \<and> json (Response 200 (Inr (JObject []))) = Inr (JObject [])
    \<and> (\<forall>rs. JObject [] \<noteq> JArray rs)"
    by (simp add: url_1 serving_def)
  have 6: "truthy ?id \<and> serving ?full (measurementsUrl utcHost ?id)
      = Inr (Response 200 (Inr (JArray exampleRecords)))
    \<and> ok (Response 200 (Inr (JArray exampleRecords)))
    \<and> json (Response 200 (Inr (JArray exampleRecords))) = Inr (JArray exampleRecords)"
    by (simp add: url_1 serving_def ok_def)
  have a: "fetchMeasurements utcHost (serving ?full) JUndefined = Inr []"
    using 1 fetchMeasurements_cases [of JUndefined utcHost "serving ?full"] by blast
  have b: "fetchMeasurements utcHost (serving (Inl FetchError)) ?id = Inr []"
    using 2 fetchMeasurements_cases [of ?id utcHost "serving (Inl FetchError)" FetchError]
    by blast
  have c: "fetchMeasurements utcHost (serving (Inr (Response 500 (Inr (JArray exampleRecords))))) ?id
      = Inr []"
    using 3 fetchMeasurements_cases [of ?id utcHost
        "serving (Inr (Response 500 (Inr (JArray exampleRecords))))"
        _ "Response 500 (Inr (JArray exampleRecords))"]
    by blast
  have d: "fetchMeasurements utcHost (serving (Inr (Response 200 (Inl JsonError)))) ?id = Inr []"
    using 4 fetchMeasurements_cases [of ?id utcHost "serving (Inr (Response 200 (Inl JsonError)))"
        JsonError "Response 200 (Inl JsonError)"]
    by blast
  have e: "fetchMeasurements utcHost (serving (Inr (Response 200 (Inr (JObject []))))) ?id = Inr []"
    using 5 fetchMeasurements_cases [of ?id utcHost "serving (Inr (Response 200 (Inr (JObject []))))"
        _ "Response 200 (Inr (JObject []))" "JObject []"]
    by blast
  have f: "fetchMeasurements utcHost (serving ?full) ?id = Inr exampleRecords"
    using 6 fetchMeasurements_cases [of ?id utcHost "serving ?full"
        _ "Response 200 (Inr (JArray exampleRecords))" _ exampleRecords]
    by blast
  have ne: "exampleRecords \<noteq> []"
    by (simp add: exampleRecords_def)
  have g: "\<exists>r. serving ?full (measurementsUrl utcHost ?id) = Inr r
         \<and> ok r \<and> json r = Inr (JArray exampleRecords)"
    using f ne fetchMeasurements_cases [of ?id utcHost "serving ?full" _ _ _ exampleRecords]
    by blast
  from a b c d e f g show ?thesis by simp
qed

section \<open>The chart controller: the default metric\<close>

lemma find_nitrate:
  "find (\<lambda>m. metricKey m = ''nitrate'') metrics = Some (Metric ''nitrate'' nitrateLabel)"
  by (simp add: metrics_def nitrateLabel_def)

lemma getVisibleMetrics_unchecked:
  "\<forall>t \<in> set tgs. \<not> checked t \<Longrightarrow> getVisibleMetrics tgs = [''nitrate'']"
  by (simp add: getVisibleMetrics_def)

lemma buildPoints_Nil: "buildPoints h [] key = []"
  by (simp add: buildPoints_def arraySort_def)

lemma pushDataset_Nil: "pushDataset h [] ds key = ds"
  by (simp add: pushDataset_def buildPoints_Nil split: option.splits)

lemma createDatasets_Nil: "createDatasets h [] tgs = []"
proof -
  have "foldl (pushDataset h []) ds ks = ds" for ds ks
    by (induction ks arbitrary: ds) (simp_all add: pushDataset_Nil)
  then show ?thesis by (simp add: createDatasets_def)
qed

text \<open>
  C3, as the code has it.  When no toggle is checked, the visible metrics are exactly
  \<^verbatim>\<open>nitrate\<close>, and the datasets are the single nitrate dataset when the nitrate series has
  at least one point, and none otherwise.
\<close>

theorem createDatasets_unchecked:
  assumes "\<forall>t \<in> set tgs. \<not> checked t"
  shows "getVisibleMetrics tgs = [''nitrate'']
    \<and> createDatasets h rawData tgs =
        (if buildPoints h rawData ''nitrate'' = [] then []
         else [createDataset nitrateLabel (buildPoints h rawData ''nitrate'') ''nitrate''])"
  using assms
  by (simp add: createDatasets_def getVisibleMetrics_unchecked pushDataset_def find_nitrate)

theorem createDatasets_unchecked_witness:
  "filter checked uncheckedToggles = []
   \<and> getVisibleMetrics uncheckedToggles = [''nitrate'']
   \<and> createDatasets utcHost exampleRecords uncheckedToggles =
       [createDataset nitrateLabel
          [Point (XDate (ValidDate 1704110400000)) (Fin 5),
           Point (XDate (ValidDate 1704196800000)) (Fin 7)] ''nitrate'']"
proof -
  have u: "\<forall>t \<in> set uncheckedToggles. \<not> checked t"
    by (simp add: uncheckedToggles_def)
  from createDatasets_unchecked [OF u, of utcHost exampleRecords] show ?thesis
    by (simp add: buildPoints_exampleRecords_utc) (simp add: uncheckedToggles_def)
qed

text \<open>
  C3 as stated fails: with no toggle checked and no record, the visible metric is
  \<^verbatim>\<open>nitrate\<close> and yet there is no dataset.
\<close>

theorem createDatasets_unchecked_empty:
  "getVisibleMetrics uncheckedToggles = [''nitrate'']
   \<and> createDatasets utcHost [] uncheckedToggles = []"
  by (simp add: createDatasets_Nil getVisibleMetrics_unchecked uncheckedToggles_def)

section \<open>The chart controller: construction and fallback\<close>

lemma renderChart_primary:
  assumes "newChart pg [] (chartConfig (createDatasets h rawData (toggles pg))) = Inr c"
  shows "renderChart h pg rawData [] =
    (Inr (Some c), [chartConfig (createDatasets h rawData (toggles pg))])"
  using assms by (simp add: renderChart_def tryCatchS_def construct_def Let_def)

lemma renderChart_fallback:
  assumes "newChart pg [] (chartConfig (createDatasets h rawData (toggles pg))) = Inl e"
  shows "renderChart h pg rawData [] =
    (let cfg = chartConfig (createDatasets h rawData (toggles pg));
         cfg2 = cfg\<lparr>scaleX := linearAxis,
                    datasets := map fallbackDataset (createDatasets h rawData (toggles pg))\<rparr>
     in (Inr (case newChart pg [cfg] cfg2 of Inl e' \<Rightarrow> None | Inr c \<Rightarrow> Some c), [cfg, cfg2]))"
  using assms
  by (simp add: renderChart_def tryCatchS_def construct_def Let_def split: sum.splits)

lemma fetch_pageServing:
  "fetchMeasurements utcHost (fetch (pageServing rs ctor)) (selectedAquarium (pageServing rs ctor))
     = Inr rs"
  by (simp add: fetchMeasurements_def pageServing_def url_1 serving_def ok_def tryCatch_def)

lemma handler_noDataPage:
  "handler utcHost (pageServing [] alwaysConstructs) =
     Inr (Ran \<lparr>chart = Some (chartConfig []), chartCalls = [chartConfig []],
               appended = [noDataMsg]\<rparr>)"
proof -
  let ?p = "pageServing [] alwaysConstructs"
  have "newChart ?p [] (chartConfig (createDatasets utcHost [] (toggles ?p)))
      = Inr (chartConfig [])"
    by (simp add: pageServing_def createDatasets_Nil alwaysConstructs_def)
  from renderChart_primary [OF this] fetch_pageServing [of "[]" alwaysConstructs] show ?thesis
    by (simp add: handler_def createDatasets_Nil) (simp add: pageServing_def)
qed

text \<open>
  C1, as the code has it.  When the loader returns the empty list, the handler appends
  the notice to the parent of the canvas, and it still calls the chart constructor, first
  with a configuration without datasets; when that call returns a chart, this chart is
  the chart of the page and no other call is made.
\<close>

theorem handler_no_data:
  assumes "canvas pg" and "truthy (selectedAquarium pg)"
    and "fetchMeasurements h (fetch pg) (selectedAquarium pg) = Inr []"
  shows "\<exists>r. handler h pg = Inr (Ran r) \<and> appended r = [noDataMsg]
    \<and> chartCalls r \<noteq> [] \<and> hd (chartCalls r) = chartConfig []
    \<and> (\<forall>c. newChart pg [] (chartConfig []) = Inr c \<longrightarrow>
          chart r = Some c \<and> chartCalls r = [chartConfig []])"
proof (cases "newChart pg [] (chartConfig [])")
  case (Inl e)
  with assms show ?thesis
    by (simp add: handler_def createDatasets_Nil renderChart_fallback Let_def)
next
  case (Inr c)
  with assms show ?thesis
    by (simp add: handler_def createDatasets_Nil renderChart_primary)
qed

theorem handler_no_data_witness:
  "canvas (pageServing [] alwaysConstructs)
   \<and> truthy (selectedAquarium (pageServing [] alwaysConstructs))
   \<and> fetchMeasurements utcHost (fetch (pageServing [] alwaysConstructs))
       (selectedAquarium (pageServing [] alwaysConstructs)) = Inr []
   \<and> newChart (pageServing [] alwaysConstructs) [] (chartConfig []) = Inr (chartConfig [])
   \<and> (\<exists>r. handler utcHost (pageServing [] alwaysConstructs) = Inr (Ran r)
         \<and> appended r = [noDataMsg] \<and> chart r = Some (chartConfig []))"
proof -
  let ?p = "pageServing [] alwaysConstructs"
  have c: "canvas ?p" "truthy (selectedAquarium ?p)"
    by (simp_all add: pageServing_def)
  have n: "newChart ?p [] (chartConfig []) = Inr (chartConfig [])"
    by (simp add: pageServing_def alwaysConstructs_def)
  from handler_no_data [OF c fetch_pageServing] n c fetch_pageServing [of "[]" alwaysConstructs]
  show ?thesis by blast
qed

text \<open>
  C1 as stated fails: on a page whose server answers with the empty list and whose chart
  constructor succeeds, the handler appends the notice and constructs a chart all the
  same.
\<close>

theorem handler_no_data_constructs_chart:
  "fetchMeasurements utcHost (fetch (pageServing [] alwaysConstructs))
     (selectedAquarium (pageServing [] alwaysConstructs)) = Inr []
   \<and> handler utcHost (pageServing [] alwaysConstructs) =
       Inr (Ran \<lparr>chart = Some (chartConfig []), chartCalls = [chartConfig []],
                 appended = [noDataMsg]\<rparr>)"
  using fetch_pageServing [of "[]" alwaysConstructs] handler_noDataPage by simp

lemma length_indexPoints: "length (indexPoints i ps) = length ps"
  by (induction ps arbitrary: i) simp_all

lemma nth_indexPoints:
  "j < length ps \<Longrightarrow>
   indexPoints i ps ! j = Point (XNumber (Fin (of_nat (i + j)))) (pointY (ps ! j))"
proof (induction ps arbitrary: i j)
  case Nil
  then show ?case by simp
next
  case (Cons p ps)
  show ?case
  proof (cases j)
    case 0
    then show ?thesis by simp
  next
    case (Suc k)
    with Cons.prems have "k < length ps" by simp
    from Cons.IH [OF this, of "Suc i"] Suc show ?thesis by simp
  qed
qed

lemma createDatasets_example:
  "createDatasets utcHost exampleRecords (toggles (pageServing rs ctor)) = exampleDatasets"
  by (simp add: createDatasets_def getVisibleMetrics_def pageServing_def pushDataset_def
      find_nitrate buildPoints_exampleRecords_utc exampleDatasets_def)

lemma fallback_example:
  "(chartConfig exampleDatasets)
     \<lparr>scaleX :=
        \<lparr>axisType = Some ''linear'', timeOptions = None, beginAtZero = None,
         gridColor = ''rgba(255, 255, 255, 0.1)'', ticksColor = ''#ffffff''\<rparr>,
      datasets := map fallbackDataset exampleDatasets\<rparr> = exampleFallback"
  by (simp add: exampleDatasets_def exampleFallback_def chartConfig_def fallbackDataset_def
      createDataset_def)

text \<open>
  C5.  When the first call of the chart constructor throws, the handler makes exactly one
  more call.  Its configuration is the first one with the horizontal scale replaced by a
  scale of type \<^verbatim>\<open>linear\<close> that has no time options, only the grid and tick colours,
  and with the datasets rebuilt by \<open>fallbackDataset\<close>.  The chart of the page is the chart
  of that call, or none when it throws too, and the handler returns normally in both
  cases.  \<open>fallbackDataset\<close> changes nothing but the points of a dataset: it keeps their
  number and their \<^verbatim>\<open>y\<close>, and the \<^verbatim>\<open>x\<close> of the point at position \<open>j\<close> becomes the number
  \<open>j\<close>.
\<close>

theorem handler_fallback:
  assumes "canvas pg" and "truthy (selectedAquarium pg)"
    and "fetchMeasurements h (fetch pg) (selectedAquarium pg) = Inr rawData"
    and "newChart pg [] (chartConfig (createDatasets h rawData (toggles pg))) = Inl e"
  shows "(let ds = createDatasets h rawData (toggles pg);
              cfg = chartConfig ds;
              cfg2 = cfg\<lparr>scaleX :=
                         \<lparr>axisType = Some ''linear'', timeOptions = None,
                          beginAtZero = None, gridColor = ''rgba(255, 255, 255, 0.1)'',
                          ticksColor = ''#ffffff''\<rparr>,
                       datasets := map fallbackDataset ds\<rparr>
          in handler h pg =
               Inr (Ran \<lparr>chart = (case newChart pg [cfg] cfg2 of
                                     Inl e' \<Rightarrow> None | Inr c \<Rightarrow> Some c),
                         chartCalls = [cfg, cfg2],
                         appended = (if rawData = [] then [noDataMsg] else [])\<rparr>))
    \<and> (\<forall>d. fallbackDataset d = d\<lparr>points := points (fallbackDataset d)\<rparr>
          \<and> length (points (fallbackDataset d)) = length (points d)
          \<and> (\<forall>j < length (points d).
                points (fallbackDataset d) ! j =
                  Point (XNumber (Fin (of_nat j))) (pointY (points d ! j))))"
proof -
  have "\<forall>d. fallbackDataset d = d\<lparr>points := points (fallbackDataset d)\<rparr>
          \<and> length (points (fallbackDataset d)) = length (points d)
          \<and> (\<forall>j < length (points d).
                points (fallbackDataset d) ! j =
                  Point (XNumber (Fin (of_nat j))) (pointY (points d ! j)))"
    by (simp add: fallbackDataset_def length_indexPoints nth_indexPoints)
  moreover from assms have "(let ds = createDatasets h rawData (toggles pg);
              cfg = chartConfig ds;
              cfg2 = cfg\<lparr>scaleX :=
                         \<lparr>axisType = Some ''linear'', timeOptions = None,
                          beginAtZero = None, gridColor = ''rgba(255, 255, 255, 0.1)'',
                          ticksColor = ''#ffffff''\<rparr>,
                       datasets := map fallbackDataset ds\<rparr>
          in handler h pg =
               Inr (Ran \<lparr>chart = (case newChart pg [cfg] cfg2 of
                                     Inl e' \<Rightarrow> None | Inr c \<Rightarrow> Some c),
                         chartCalls = [cfg, cfg2],
                         appended = (if rawData = [] then [noDataMsg] else [])\<rparr>))"
    by (simp add: handler_def renderChart_fallback Let_def linearAxis_def)
  ultimately show ?thesis by blast
qed

theorem handler_fallback_witness:
  "handler utcHost (pageServing exampleRecords timeScaleFails) =
     Inr (Ran \<lparr>chart = Some exampleFallback,
               chartCalls = [chartConfig exampleDatasets, exampleFallback], appended = []\<rparr>)
   \<and> handler utcHost (pageServing exampleRecords alwaysFails) =
     Inr (Ran \<lparr>chart = None,
               chartCalls = [chartConfig exampleDatasets, exampleFallback], appended = []\<rparr>)
   \<and> points (fallbackDataset (hd exampleDatasets)) ! 1 = Point (XNumber (Fin 1)) (Fin 7)"
proof -
  let ?p = "pageServing exampleRecords timeScaleFails"
  let ?q = "pageServing exampleRecords alwaysFails"
  have c: "canvas ?p" "truthy (selectedAquarium ?p)" "canvas ?q" "truthy (selectedAquarium ?q)"
    by (simp_all add: pageServing_def)
  have np: "newChart ?p [] (chartConfig (createDatasets utcHost exampleRecords (toggles ?p)))
      = Inl ChartError"
    by (simp add: createDatasets_example)
      (simp add: pageServing_def timeScaleFails_def chartConfig_def)
  have nq: "newChart ?q [] (chartConfig (createDatasets utcHost exampleRecords (toggles ?q)))
      = Inl ChartError"
    by (simp add: pageServing_def alwaysFails_def)
  have np2: "newChart ?p [chartConfig exampleDatasets] exampleFallback = Inr exampleFallback"
    by (simp add: pageServing_def timeScaleFails_def exampleFallback_def)
  have nq2: "newChart ?q [chartConfig exampleDatasets] exampleFallback = Inl ChartError"
    by (simp add: pageServing_def alwaysFails_def)
  have nonempty: "exampleRecords \<noteq> []"
    by (simp add: exampleRecords_def)
  have a: "handler utcHost ?p =
     Inr (Ran \<lparr>chart = Some exampleFallback,
               chartCalls = [chartConfig exampleDatasets, exampleFallback], appended = []\<rparr>)"
    using handler_fallback [OF c(1,2) fetch_pageServing np] nonempty
    by (simp add: Let_def createDatasets_example fallback_example np2)
  have b: "handler utcHost ?q =
     Inr (Ran \<lparr>chart = None,
               chartCalls = [chartConfig exampleDatasets, exampleFallback], appended = []\<rparr>)"
    using handler_fallback [OF c(3,4) fetch_pageServing nq] nonempty
    by (simp add: Let_def createDatasets_example fallback_example nq2)
  have l: "length (points (hd exampleDatasets)) = 2"
      "pointY (points (hd exampleDatasets) ! 1) = Fin 7"
    by (simp_all add: exampleDatasets_def createDataset_def)
  have "\<forall>j < length (points (hd exampleDatasets)).
      points (fallbackDataset (hd exampleDatasets)) ! j =
        Point (XNumber (Fin (of_nat j))) (pointY (points (hd exampleDatasets) ! j))"
    using handler_fallback [OF c(3,4) fetch_pageServing nq] by blast
  with l have d: "points (fallbackDataset (hd exampleDatasets)) ! 1 =
      Point (XNumber (Fin 1)) (Fin 7)"
    by fastforce
  from a b d show ?thesis by simp
qed

section \<open>Range validation: the three outcomes\<close>

lemma classAdd_fresh:
  "t \<in> set ts \<Longrightarrow> classAdd t (classRemove ts cl) = classRemove ts cl @ [t]"
  by (auto simp: classAdd_def classRemove_def)

lemma cleared_bounded:
  "classRemove rangeClasses (classList (boundedInput v)) = [''form-control'']"
  by (simp add: classRemove_def rangeClasses_def boundedInput_def)

lemma rangeInput_empty_value:
  "rangeInput utcHost (boundedInput []) = (boundedInput [])\<lparr>classList := [''form-control'']\<rparr>"
  by (simp add: rangeInput_def Let_def boundedInput_def parseFloat_def parseFloatStr_empty
      classRemove_def)

text \<open>
  C4, as the code has it.  The value and the bounds are the doubles that \<^verbatim>\<open>parseFloat\<close>
  reads.  The listener first removes the three range classes.  When the
  value parses to a number below the minimum or above the maximum, it then adds
  \<^verbatim>\<open>border-danger\<close> and sets the out-of-range tooltip; when the value parses to a number
  that is neither, it adds \<^verbatim>\<open>border-success\<close> and sets the in-range tooltip; when the value
  does not parse to a number, it changes nothing else: the classes stay removed and the
  tooltip is the old one.
\<close>

theorem rangeInput_cases:
  "(let val = parseFloat h (JString (inputValue el));
        mn = parseFloat h (JString (reflect (minAttr el)));
        mx = parseFloat h (JString (reflect (maxAttr el)));
        cleared = classRemove rangeClasses (classList el)
    in (isNaN val \<longrightarrow> rangeInput h el = el\<lparr>classList := cleared\<rparr>)
     \<and> (\<not> isNaN val \<and> (jsLess val mn \<or> jsGreater val mx) \<longrightarrow>
          rangeInput h el =
            el\<lparr>classList := cleared @ [''border-danger''],
               title := ''Valor fuera del rango recomendado ('' @ numberToString h mn
                        @ ''-'' @ numberToString h mx @ '')''\<rparr>)
     \<and> (\<not> isNaN val \<and> \<not> jsLess val mn \<and> \<not> jsGreater val mx \<longrightarrow>
          rangeInput h el =
            el\<lparr>classList := cleared @ [''border-success''], title := optimalTitle\<rparr>))"
  by (simp add: rangeInput_def Let_def rangeClasses_def optimalTitle_def classAdd_fresh)

theorem rangeInput_cases_witness:
  "rangeInput utcHost (boundedInput []) = (boundedInput [])\<lparr>classList := [''form-control'']\<rparr>
   \<and> rangeInput utcHost (boundedInput ''15'') =
       (boundedInput ''15'')\<lparr>classList := [''form-control'', ''border-danger''],
          title := ''Valor fuera del rango recomendado (0-10)''\<rparr>
   \<and> rangeInput utcHost (boundedInput ''5'') =
       (boundedInput ''5'')\<lparr>classList := [''form-control'', ''border-success''],
          title := optimalTitle\<rparr>
   \<and> rangeInput utcHost (boundedInput ''10.0000000000000001'') =
       (boundedInput ''10.0000000000000001'')
         \<lparr>classList := [''form-control'', ''border-success''], title := optimalTitle\<rparr>"
proof -
  have v: "parseFloat utcHost (JString (inputValue (boundedInput v))) = parseFloatStr v"
      "parseFloat utcHost (JString (reflect (minAttr (boundedInput v)))) = Fin 0"
      "parseFloat utcHost (JString (reflect (maxAttr (boundedInput v)))) = Fin 10" for v
    by (simp_all add: parseFloat_def boundedInput_def reflect_def parseFloatStr_0
        parseFloatStr_10)
  have a: "rangeInput utcHost (boundedInput []) =
       (boundedInput [])\<lparr>classList := [''form-control'']\<rparr>"
    using rangeInput_cases [of utcHost "boundedInput []"]
    by (simp add: Let_def v cleared_bounded parseFloatStr_empty)
  have b: "rangeInput utcHost (boundedInput ''15'') =
       (boundedInput ''15'')\<lparr>classList := [''form-control'', ''border-danger''],
          title := ''Valor fuera del rango recomendado (0-10)''\<rparr>"
    using rangeInput_cases [of utcHost "boundedInput ''15''"]
    by (simp add: Let_def v cleared_bounded parseFloatStr_15 jsGreater_def
        numberToString_0 numberToString_10)
  have c: "rangeInput utcHost (boundedInput ''5'') =
       (boundedInput ''5'')\<lparr>classList := [''form-control'', ''border-success''],
          title := optimalTitle\<rparr>"
    using rangeInput_cases [of utcHost "boundedInput ''5''"]
    by (simp add: Let_def v cleared_bounded parseFloatStr_5 jsGreater_def)
  have d: "rangeInput utcHost (boundedInput ''10.0000000000000001'') =
       (boundedInput ''10.0000000000000001'')
         \<lparr>classList := [''form-control'', ''border-success''], title := optimalTitle\<rparr>"
    using rangeInput_cases [of utcHost "boundedInput ''10.0000000000000001''"]
    by (simp add: Let_def v cleared_bounded parseFloatStr_above_10 jsGreater_def)
  from a b c d show ?thesis by simp
qed

text \<open>
  C4 as stated fails: on an input that shows the success class, an event with a value
  that does not parse to a number removes that class.
\<close>

theorem rangeInput_not_noop:
  "isNaN (parseFloat utcHost (JString (inputValue (boundedInput []))))
   \<and> classList (boundedInput []) = [''form-control'', ''border-success'']
   \<and> classList (rangeInput utcHost (boundedInput [])) = [''form-control'']"
  by (simp add: rangeInput_empty_value)
    (simp add: boundedInput_def parseFloat_def parseFloatStr_empty)

text \<open>
  C10.  On a number input without \<^verbatim>\<open>min\<close> and \<^verbatim>\<open>max\<close> attributes whose value parses to a
  number, both parsed bounds are \<open>NaN\<close>, which is not \<^verbatim>\<open>undefined\<close>, both comparisons are
  false, and the listener adds \<^verbatim>\<open>border-success\<close> and sets the in-range tooltip.
\<close>

theorem rangeInput_no_bounds:
  assumes "minAttr el = None" and "maxAttr el = None"
    and "\<not> isNaN (parseFloat h (JString (inputValue el)))"
  shows "parseFloat h (JString (reflect (minAttr el))) = NaN
    \<and> parseFloat h (JString (reflect (maxAttr el))) = NaN
    \<and> JNumber (parseFloat h (JString (reflect (minAttr el)))) \<noteq> JUndefined
    \<and> JNumber (parseFloat h (JString (reflect (maxAttr el)))) \<noteq> JUndefined
    \<and> \<not> jsLess (parseFloat h (JString (inputValue el)))
          (parseFloat h (JString (reflect (minAttr el))))
    \<and> \<not> jsGreater (parseFloat h (JString (inputValue el)))
          (parseFloat h (JString (reflect (maxAttr el))))
    \<and> ''border-success'' \<in> set (classList (rangeInput h el))
    \<and> rangeInput h el =
        el\<lparr>classList := classRemove rangeClasses (classList el) @ [''border-success''],
           title := optimalTitle\<rparr>"
proof -
  have n: "parseFloat h (JString (reflect None)) = NaN"
    by (simp add: parseFloat_def reflect_def parseFloatStr_empty)
  have l: "\<not> jsLess a NaN" "\<not> jsLess NaN a" for a
    by (cases a; simp)+
  from assms show ?thesis
    by (simp add: n l jsGreater_def rangeInput_def Let_def classAdd_fresh rangeClasses_def
        optimalTitle_def)
qed

theorem rangeInput_no_bounds_witness:
  "minAttr (unboundedInput ''5'') = None \<and> maxAttr (unboundedInput ''5'') = None
   \<and> \<not> isNaN (parseFloat utcHost (JString (inputValue (unboundedInput ''5''))))
   \<and> rangeInput utcHost (unboundedInput ''5'') =
       (unboundedInput ''5'')\<lparr>classList := [''form-control'', ''border-success''],
          title := optimalTitle\<rparr>"
proof -
  have a: "minAttr (unboundedInput ''5'') = None" "maxAttr (unboundedInput ''5'') = None"
    by (simp_all add: unboundedInput_def)
  have b: "\<not> isNaN (parseFloat utcHost (JString (inputValue (unboundedInput ''5''))))"
    by (simp add: unboundedInput_def parseFloat_def parseFloatStr_5)
  have c: "classRemove rangeClasses (classList (unboundedInput ''5'')) = [''form-control'']"
    by (simp add: classRemove_def rangeClasses_def unboundedInput_def)
  from rangeInput_no_bounds [OF a b] a b c show ?thesis by simp
qed

section \<open>The selector background: a failed image\<close>

lemma setBackground_shown:
  "setBackground shownSelector =
     (shownSelector\<lparr>selectorBackground := [], selectorClasses := [''form-select''],
        previewBackground := Some []\<rparr>, Some ''/static/b.png'')"
  by (simp add: setBackground_def shownSelector_def Let_def classRemove_def)

lemma selectionChange_shown:
  "selectionChange noImageLoads shownSelector =
     shownSelector\<lparr>selectorBackground := [], selectorClasses := [''form-select''],
        previewBackground := Some []\<rparr>"
  by (simp add: selectionChange_def setBackground_shown noImageLoads_def imgOnerror_def)

text \<open>
  C9, as the code has it.  When the image of the selected option fails to load, the
  error listener changes nothing, so the selector and the preview stay as \<open>setBackground\<close>
  left them when it cleared them: an empty background image on both and no
  \<^verbatim>\<open>has-background\<close> class.  The image that failed is never applied.
\<close>

theorem failed_image_leaves_cleared:
  assumes "setBackground st = (st1, Some u)" and "\<not> loads u"
  shows "selectionChange loads st = st1 \<and> imgOnerror u st1 = st1
    \<and> st1 = st\<lparr>selectorBackground := [],
                selectorClasses := classRemove [''has-background''] (selectorClasses st),
                previewBackground := map_option (\<lambda>b. []) (previewBackground st)\<rparr>
    \<and> selectorBackground st1 \<noteq> cssUrl u
    \<and> ''has-background'' \<notin> set (selectorClasses st1)
    \<and> previewBackground st1 \<noteq> Some (cssUrl u)"
  using assms
  by (auto simp: selectionChange_def imgOnerror_def setBackground_def Let_def cssUrl_def
      classRemove_def split: option.splits if_splits)

theorem failed_image_leaves_cleared_witness:
  "setBackground shownSelector =
     (shownSelector\<lparr>selectorBackground := [], selectorClasses := [''form-select''],
        previewBackground := Some []\<rparr>, Some ''/static/b.png'')
   \<and> \<not> noImageLoads ''/static/b.png''
   \<and> selectionChange noImageLoads shownSelector =
       shownSelector\<lparr>selectorBackground := [], selectorClasses := [''form-select''],
          previewBackground := Some []\<rparr>"
proof -
  have n: "\<not> noImageLoads ''/static/b.png''" by (simp add: noImageLoads_def)
  from failed_image_leaves_cleared [of shownSelector _ "''/static/b.png''" noImageLoads,
      OF setBackground_shown n] setBackground_shown n
  show ?thesis by simp
qed

text \<open>
  C9 as stated fails: a selector that shows the image of its first option loses that
  background, and so does the preview, when the second option is selected and its image
  fails to load.
\<close>

theorem failed_image_changes_background:
  "selectorBackground shownSelector = cssUrl ''/static/a.png''
   \<and> previewBackground shownSelector = Some (cssUrl ''/static/a.png'')
   \<and> selectorBackground (selectionChange noImageLoads shownSelector) = []
   \<and> previewBackground (selectionChange noImageLoads shownSelector) = Some []
   \<and> cssUrl ''/static/a.png'' \<noteq> []"
  by (simp add: selectionChange_shown) (simp add: shownSelector_def cssUrl_def)

end
